theory Spec2Isabelle
  imports Main "HOL-Library.Word"
begin

section \<open>The mapstructure decoder of mateothegreat/util\<close>

text \<open>
  A shallow embedding of \<^verbatim>\<open>containers/mapstructure/mapstructure.go\<close>.
  The Go program works on \<^verbatim>\<open>reflect.Value\<close>s; here a Go type is a term of
  \<open>gotype\<close>, a Go value a term of \<open>gvalue\<close>, and every function that mutates
  its target returns the target's new content together with the error it returns.

  Scope of the embedding.
  \<^item> Types: bool, the sized integers, floats, string, \<^verbatim>\<open>interface{}\<close>, slices, maps,
    pointers and structs. Types are compared structurally (a struct type is its field
    list); arrays, channels, functions and named non-struct types are left out.
  \<^item> Strings are byte lists; \<^verbatim>\<open>strings.ToLower\<close> and \<^verbatim>\<open>strings.TrimSpace\<close> are
    modelled on ASCII.
  \<^item> \<^verbatim>\<open>int\<close> and \<^verbatim>\<open>uint\<close> are 64 bits wide (\<^verbatim>\<open>strconv.IntSize = 64\<close>).
  \<^item> A float is carried as its IEEE bit pattern; what the Go runtime computes on floats,
    \<^verbatim>\<open>time.Parse\<close>, \<^verbatim>\<open>reflect.Value.Convert\<close> and the JSON and YAML parsers are
    parameters, collected in the record \<open>golib\<close>.
  \<^item> A Go map is an association list with distinct keys, in the order in which
    \<^verbatim>\<open>range\<close> happens to visit it; theorems hold for every such order unless they
    say otherwise.
\<close>

subsection \<open>Types and values\<close>

datatype ikind = GoInt | GoInt8 | GoInt16 | GoInt32 | GoInt64
datatype ukind = GoUint | GoUint8 | GoUint16 | GoUint32 | GoUint64
datatype fkind = GoFloat32 | GoFloat64

datatype kind =
    KInvalid | KBool | KInt ikind | KUint ukind | KFloat fkind | KString
  | KInterface | KSlice | KMap | KPtr | KStruct

text \<open>\<^verbatim>\<open>reflect.StructField\<close>: a field is exported iff its \<open>PkgPath\<close> is empty. The
  struct tag is kept parsed, as the list of its \<^verbatim>\<open>key:"value"\<close> pairs. A struct type
  is the list of its fields, each with its type.\<close>

record StructField =
  Name :: string
  PkgPath :: string
  Tag :: "(string \<times> string) list"

datatype gotype =
    TBool | TInt ikind | TUint ukind | TFloat fkind | TString | TInterface
  | TSlice gotype | TMap gotype gotype | TPtr gotype
  | TStruct "(StructField \<times> gotype) list"

type_synonym field = "StructField \<times> gotype"

abbreviation Type :: "field \<Rightarrow> gotype" where
  "Type f \<equiv> snd f"

definition IsExported :: "field \<Rightarrow> bool" where
  "IsExported f = (PkgPath (fst f) = [])"

text \<open>\<^verbatim>\<open>StructTag.Get\<close>: the value under the key, or the empty string.\<close>

definition TagGet :: "field \<Rightarrow> string \<Rightarrow> string" where
  "TagGet f key = (case map_of (Tag (fst f)) key of Some v \<Rightarrow> v | None \<Rightarrow> [])"

text \<open>The content of a variable. A variable of type \<^verbatim>\<open>interface{}\<close> holds \<open>VNil\<close> or
  a value of any other type; \<open>VNil\<close> is also the nil \<^verbatim>\<open>interface{}\<close> argument.\<close>

datatype gvalue =
    VNil
  | VBool bool
  | VInt ikind int
  | VUint ukind nat
  | VFloat fkind "64 word"
  | VString string
  | VNilSlice gotype
  | VSlice gotype "gvalue list"
  | VNilMap gotype gotype
  | VMap gotype gotype "(gvalue \<times> gvalue) list"
  | VNilPtr gotype
  | VPtr gotype gvalue
  | VStruct "field list" "gvalue list"

type_synonym document = "(string \<times> gvalue) list"

text \<open>The \<^verbatim>\<open>output interface{}\<close> argument: nil, a value that is not a pointer, a nil
  pointer, or a pointer to a variable of the given type with the given content.\<close>

datatype dest = DNil | DNonPtr gvalue | DNilPtr gotype | DPtr gotype gvalue

datatype error =
    ErrEmptyInput
  | ErrInputType
  | ErrLibrary string
  | ErrParseJSON error
  | ErrParseYAML error
  | ErrInvalidDestination
  | ErrNotStructDestination kind
  | ErrUnknownField string
  | ErrSettingField string error
  | ErrMapKey error
  | ErrMapValue error
  | ErrTypeConversion gvalue gotype gotype
  | ErrNotAStruct kind
  | ErrPanic

record MapDecoder =
  WeaklyTyped :: bool
  TagName :: string
  IgnoreUnknownKeys :: bool
  ZeroFields :: bool

text \<open>What the program takes from the Go runtime and its libraries.\<close>

record golib =
  ParseFloat :: "string \<Rightarrow> nat \<Rightarrow> 64 word option"
  RoundFloat32 :: "64 word \<Rightarrow> 64 word"
  FloatToInt64 :: "64 word \<Rightarrow> int"
  FloatToUint64 :: "64 word \<Rightarrow> nat"
  FormatFloat :: "64 word \<Rightarrow> string"
  TimeParse :: "string \<Rightarrow> string \<Rightarrow> gvalue option"
  Convert :: "gvalue \<Rightarrow> gotype \<Rightarrow> gvalue"
  jsonUnmarshal :: "string \<Rightarrow> dest \<Rightarrow> dest \<times> error option"
  jsonUnmarshalMap :: "string \<Rightarrow> error + document"
  yamlUnmarshal :: "string \<Rightarrow> dest \<Rightarrow> dest \<times> error option"
  yamlUnmarshalMap :: "string \<Rightarrow> error + document"

definition NewDecoder :: MapDecoder where
  "NewDecoder = \<lparr>WeaklyTyped = True, TagName = ''json'', IgnoreUnknownKeys = True,
     ZeroFields = True\<rparr>"

subsection \<open>reflect: kinds, zero values, assignability\<close>

fun Kind :: "gotype \<Rightarrow> kind" where
  "Kind TBool = KBool"
| "Kind (TInt k) = KInt k"
| "Kind (TUint k) = KUint k"
| "Kind (TFloat k) = KFloat k"
| "Kind TString = KString"
| "Kind TInterface = KInterface"
| "Kind (TSlice t) = KSlice"
| "Kind (TMap k v) = KMap"
| "Kind (TPtr t) = KPtr"
| "Kind (TStruct fs) = KStruct"

fun intBits :: "ikind \<Rightarrow> nat" where
  "intBits GoInt = 64"
| "intBits GoInt8 = 8"
| "intBits GoInt16 = 16"
| "intBits GoInt32 = 32"
| "intBits GoInt64 = 64"

fun uintBits :: "ukind \<Rightarrow> nat" where
  "uintBits GoUint = 64"
| "uintBits GoUint8 = 8"
| "uintBits GoUint16 = 16"
| "uintBits GoUint32 = 32"
| "uintBits GoUint64 = 64"

fun floatBits :: "fkind \<Rightarrow> nat" where
  "floatBits GoFloat32 = 32"
| "floatBits GoFloat64 = 64"

text \<open>\<^verbatim>\<open>reflect.TypeOf\<close>. The nil interface has no type; every caller tests for
  \<open>VNil\<close> before it asks.\<close>

fun typeOf :: "gvalue \<Rightarrow> gotype" where
  "typeOf VNil = TInterface"
| "typeOf (VBool b) = TBool"
| "typeOf (VInt k i) = TInt k"
| "typeOf (VUint k n) = TUint k"
| "typeOf (VFloat k f) = TFloat k"
| "typeOf (VString s) = TString"
| "typeOf (VNilSlice t) = TSlice t"
| "typeOf (VSlice t xs) = TSlice t"
| "typeOf (VNilMap k v) = TMap k v"
| "typeOf (VMap k v es) = TMap k v"
| "typeOf (VNilPtr t) = TPtr t"
| "typeOf (VPtr t v) = TPtr t"
| "typeOf (VStruct fs vs) = TStruct fs"

text \<open>\<^verbatim>\<open>reflect.Zero\<close>.\<close>

fun zeroValue :: "gotype \<Rightarrow> gvalue" where
  "zeroValue TBool = VBool False"
| "zeroValue (TInt k) = VInt k 0"
| "zeroValue (TUint k) = VUint k 0"
| "zeroValue (TFloat k) = VFloat k 0"
| "zeroValue TString = VString []"
| "zeroValue TInterface = VNil"
| "zeroValue (TSlice t) = VNilSlice t"
| "zeroValue (TMap k v) = VNilMap k v"
| "zeroValue (TPtr t) = VNilPtr t"
| "zeroValue (TStruct fs) = VStruct fs (map (\<lambda>f. zeroValue (Type f)) fs)"

text \<open>\<^verbatim>\<open>reflect.Value.IsZero\<close> of a variable of type \<open>t\<close>: its content is the zero
  value of its type.\<close>

definition IsZero :: "gotype \<Rightarrow> gvalue \<Rightarrow> bool" where
  "IsZero t v = (v = zeroValue t)"

text \<open>\<^verbatim>\<open>Type.AssignableTo\<close> on the types of the embedding: identical types, or any type
  to the empty interface.\<close>

definition AssignableTo :: "gotype \<Rightarrow> gotype \<Rightarrow> bool" where
  "AssignableTo src dst = (src = dst \<or> dst = TInterface)"

text \<open>Type identity up to struct tags, as conversion compares underlying types.\<close>

fun dropTags :: "gotype \<Rightarrow> gotype" where
  "dropTags (TSlice t) = TSlice (dropTags t)"
| "dropTags (TMap k v) = TMap (dropTags k) (dropTags v)"
| "dropTags (TPtr t) = TPtr (dropTags t)"
| "dropTags (TStruct fs) =
     TStruct (map (\<lambda>f. ((fst f)\<lparr>Tag := []\<rparr>, dropTags (Type f))) fs)"
| "dropTags t = t"

definition isNumeric :: "gotype \<Rightarrow> bool" where
  "isNumeric t = (case t of TInt k \<Rightarrow> True | TUint k \<Rightarrow> True | TFloat k \<Rightarrow> True | _ \<Rightarrow> False)"

definition isInteger :: "gotype \<Rightarrow> bool" where
  "isInteger t = (case t of TInt k \<Rightarrow> True | TUint k \<Rightarrow> True | _ \<Rightarrow> False)"

definition isByteOrRuneSlice :: "gotype \<Rightarrow> bool" where
  "isByteOrRuneSlice t = (t = TSlice (TUint GoUint8) \<or> t = TSlice (TInt GoInt32))"

text \<open>\<^verbatim>\<open>Type.ConvertibleTo\<close> on the types of the embedding, after the Go conversion
  rules: numeric to numeric, integer to string, string to and from byte and rune
  slices, identical underlying types up to tags, and whatever is assignable.\<close>

definition ConvertibleTo :: "gotype \<Rightarrow> gotype \<Rightarrow> bool" where
  "ConvertibleTo src dst =
     (AssignableTo src dst
      \<or> (isNumeric src \<and> isNumeric dst)
      \<or> (isInteger src \<and> dst = TString)
      \<or> (src = TString \<and> isByteOrRuneSlice dst)
      \<or> (isByteOrRuneSlice src \<and> dst = TString)
      \<or> (src \<noteq> TInterface \<and> dropTags src = dropTags dst))"

subsection \<open>strings and strconv\<close>

definition isSpace :: "char \<Rightarrow> bool" where
  "isSpace c = (c \<in> set [CHR 0x09, CHR 0x0A, CHR 0x0B, CHR 0x0C, CHR 0x0D, CHR '' ''])"

definition TrimSpace :: "string \<Rightarrow> string" where
  "TrimSpace s = rev (dropWhile isSpace (rev (dropWhile isSpace s)))"

definition toLowerChar :: "char \<Rightarrow> char" where
  "toLowerChar c =
     (case map_of (zip ''ABCDEFGHIJKLMNOPQRSTUVWXYZ'' ''abcdefghijklmnopqrstuvwxyz'') c of
        Some l \<Rightarrow> l | None \<Rightarrow> c)"

definition ToLower :: "string \<Rightarrow> string" where
  "ToLower s = map toLowerChar s"

text \<open>\<^verbatim>\<open>strings.Split(s, sep)\<close> for a separator of one byte: never the empty list.\<close>

fun Split :: "string \<Rightarrow> char \<Rightarrow> string list" where
  "Split [] sep = [[]]"
| "Split (c # cs) sep =
     (if c = sep then [] # Split cs sep
      else (case Split cs sep of p # ps \<Rightarrow> (c # p) # ps | [] \<Rightarrow> [[c]]))"

fun hasPrefix :: "string \<Rightarrow> string \<Rightarrow> bool" where
  "hasPrefix s [] = True"
| "hasPrefix [] (p # ps) = False"
| "hasPrefix (c # cs) (p # ps) = (c = p \<and> hasPrefix cs ps)"

fun Contains :: "string \<Rightarrow> string \<Rightarrow> bool" where
  "Contains [] sub = (sub = [])"
| "Contains (c # cs) sub = (hasPrefix (c # cs) sub \<or> Contains cs sub)"

datatype numError = ErrSyntax | ErrRange

definition isDigit :: "char \<Rightarrow> bool" where
  "isDigit c = (48 \<le> (of_char c :: nat) \<and> (of_char c :: nat) \<le> 57)"

definition digitVal :: "char \<Rightarrow> nat" where
  "digitVal c = of_char c - 48"

text \<open>The loop of \<^verbatim>\<open>strconv.ParseUint\<close> in base 10 on \<^verbatim>\<open>uint64\<close>: \<open>n\<close> is the
  number read so far. The product and the sum wrap at \<open>2 ^ 64\<close> as in Go, and the three
  overflow tests are the library's.\<close>

fun parseUintLoop :: "nat \<Rightarrow> nat \<Rightarrow> string \<Rightarrow> numError + nat" where
  "parseUintLoop bitSize n [] = Inr n"
| "parseUintLoop bitSize n (c # cs) =
     (if \<not> isDigit c then Inl ErrSyntax
      else if n \<ge> (2 ^ 64 - 1) div 10 + 1 then Inl ErrRange
      else
        (let n10 = (n * 10) mod 2 ^ 64;
             n1 = (n10 + digitVal c) mod 2 ^ 64
         in if n1 < n10 \<or> n1 > 2 ^ bitSize - 1 then Inl ErrRange
            else parseUintLoop bitSize n1 cs))"

definition ParseUint :: "string \<Rightarrow> nat \<Rightarrow> numError + nat" where
  "ParseUint s bitSize = (if s = [] then Inl ErrSyntax else parseUintLoop bitSize 0 s)"

text \<open>\<^verbatim>\<open>strconv.ParseInt(s, 10, bitSize)\<close>: an optional sign, then \<open>ParseUint\<close>; a range
  error of \<open>ParseUint\<close> comes with the largest value and is reported again here.\<close>

definition ParseInt :: "string \<Rightarrow> nat \<Rightarrow> numError + int" where
  "ParseInt s bitSize =
     (if s = [] then Inl ErrSyntax
      else
        (let neg = (hd s = CHR ''-'');
             s1 = (if hd s = CHR ''+'' \<or> hd s = CHR ''-'' then tl s else s)
         in case ParseUint s1 bitSize of
              Inl ErrSyntax \<Rightarrow> Inl ErrSyntax
            | r \<Rightarrow>
               (let un = (case r of Inr n \<Rightarrow> n | Inl e \<Rightarrow> 2 ^ bitSize - 1);
                    cutoff = 2 ^ (bitSize - 1)
                in if \<not> neg \<and> un \<ge> cutoff then Inl ErrRange
                   else if neg \<and> un > cutoff then Inl ErrRange
                   else Inr (if neg then - int un else int un))))"

text \<open>\<^verbatim>\<open>strconv.ParseBool\<close>.\<close>

definition ParseBool :: "string \<Rightarrow> bool option" where
  "ParseBool str =
     (if str \<in> set [''1'', ''t'', ''T'', ''TRUE'', ''true'', ''True''] then Some True
      else if str \<in> set [''0'', ''f'', ''F'', ''FALSE'', ''false'', ''False''] then Some False
      else None)"

subsection \<open>The weak conversions of setValue\<close>

text \<open>\<^verbatim>\<open>Value.SetInt\<close>, \<^verbatim>\<open>SetUint\<close> and \<^verbatim>\<open>SetFloat\<close> store their argument cut to the
  width of the target.\<close>

definition SetInt :: "ikind \<Rightarrow> int \<Rightarrow> gvalue" where
  "SetInt k i = VInt k (signed_take_bit (intBits k - 1) i)"

definition SetUint :: "ukind \<Rightarrow> nat \<Rightarrow> gvalue" where
  "SetUint k n = VUint k (take_bit (uintBits k) n)"

definition SetFloat :: "golib \<Rightarrow> fkind \<Rightarrow> 64 word \<Rightarrow> gvalue" where
  "SetFloat lib k f = VFloat k (if k = GoFloat32 then RoundFloat32 lib f else f)"

text \<open>\<^verbatim>\<open>reflect.TypeOf(time.Time{})\<close>: a struct of three unexported fields.\<close>

definition timeField :: "string \<Rightarrow> gotype \<Rightarrow> field" where
  "timeField n t = (\<lparr>Name = n, PkgPath = ''time'', Tag = []\<rparr>, t)"

definition zoneType :: gotype where
  "zoneType = TStruct [timeField ''name'' TString, timeField ''offset'' (TInt GoInt),
     timeField ''isDST'' TBool]"

definition zoneTransType :: gotype where
  "zoneTransType = TStruct [timeField ''when'' (TInt GoInt64),
     timeField ''index'' (TUint GoUint8), timeField ''isstd'' TBool,
     timeField ''isutc'' TBool]"

definition locationType :: gotype where
  "locationType = TStruct [timeField ''name'' TString, timeField ''zone'' (TSlice zoneType),
     timeField ''tx'' (TSlice zoneTransType), timeField ''extend'' TString,
     timeField ''cacheStart'' (TInt GoInt64), timeField ''cacheEnd'' (TInt GoInt64),
     timeField ''cacheZone'' (TPtr zoneType)]"

definition timeType :: gotype where
  "timeType = TStruct [timeField ''wall'' (TUint GoUint64), timeField ''ext'' (TInt GoInt64),
     timeField ''loc'' (TPtr locationType)]"

text \<open>\<^verbatim>\<open>time.RFC3339\<close>, \<^verbatim>\<open>time.RFC3339Nano\<close> and the three layouts of the source.\<close>

definition timeFormats :: "string list" where
  "timeFormats = [''2006-01-02T15:04:05Z07:00'', ''2006-01-02T15:04:05.999999999Z07:00'',
     ''2006-01-02T15:04:05'', ''2006-01-02 15:04:05'', ''2006-01-02'']"

fun parseTimeFormats :: "golib \<Rightarrow> string list \<Rightarrow> string \<Rightarrow> gvalue option" where
  "parseTimeFormats lib [] str = None"
| "parseTimeFormats lib (format # formats) str =
     (case TimeParse lib format str of
        Some t \<Rightarrow> Some t
      | None \<Rightarrow> parseTimeFormats lib formats str)"

text \<open>The \<^verbatim>\<open>switch targetType.Kind()\<close> on a string source. \<open>Some v\<close>: the target is set to
  \<open>v\<close> and setValue returns nil; \<open>None\<close>: control leaves the switch.\<close>

definition stringSwitch :: "golib \<Rightarrow> gotype \<Rightarrow> string \<Rightarrow> gvalue option" where
  "stringSwitch lib targetType str =
     (case targetType of
        TInt k \<Rightarrow>
          (case ParseInt str (intBits k) of Inr i \<Rightarrow> Some (SetInt k i) | Inl err \<Rightarrow> None)
      | TUint k \<Rightarrow>
          (case ParseUint str (uintBits k) of Inr i \<Rightarrow> Some (SetUint k i) | Inl err \<Rightarrow> None)
      | TFloat k \<Rightarrow>
          (case ParseFloat lib str (floatBits k) of
             Some f \<Rightarrow> Some (SetFloat lib k f) | None \<Rightarrow> None)
      | TBool \<Rightarrow>
          (if ToLower str \<in> set [''true'', ''1'', ''t'', ''yes'', ''y'', ''on'']
           then Some (VBool True)
           else if ToLower str \<in> set [''false'', ''0'', ''f'', ''no'', ''n'', ''off'']
           then Some (VBool False)
           else (case ParseBool str of Some b \<Rightarrow> Some (VBool b) | None \<Rightarrow> None))
      | TSlice elem \<Rightarrow>
          (if Kind elem = KString
           then Some (VSlice elem (map (\<lambda>part. VString (TrimSpace part)) (Split str CHR '','')))
           else None)
      | _ \<Rightarrow> None)"

text \<open>The block \<^verbatim>\<open>if sourceValue.Kind() == reflect.String\<close>: the switch, then
  \<^verbatim>\<open>time.Time\<close>.\<close>

definition stringConversions :: "golib \<Rightarrow> gotype \<Rightarrow> string \<Rightarrow> gvalue option" where
  "stringConversions lib targetType str =
     (case stringSwitch lib targetType str of
        Some v \<Rightarrow> Some v
      | None \<Rightarrow>
          if targetType = timeType then parseTimeFormats lib timeFormats str else None)"

text \<open>The block \<^verbatim>\<open>if sourceValue.Kind() == reflect.Float64\<close>.\<close>

definition floatConversions :: "golib \<Rightarrow> gotype \<Rightarrow> 64 word \<Rightarrow> gvalue option" where
  "floatConversions lib targetType f =
     (case targetType of
        TInt k \<Rightarrow> Some (SetInt k (FloatToInt64 lib f))
      | TUint k \<Rightarrow> Some (SetUint k (FloatToUint64 lib f))
      | TFloat k \<Rightarrow> (if k = GoFloat32 then Some (SetFloat lib k f) else None)
      | TString \<Rightarrow> Some (VString (FormatFloat lib f))
      | _ \<Rightarrow> None)"

text \<open>The block \<^verbatim>\<open>if d.WeaklyTyped\<close>.\<close>

definition weakConversions :: "golib \<Rightarrow> gotype \<Rightarrow> gvalue \<Rightarrow> gvalue option" where
  "weakConversions lib targetType source =
     (case source of
        VString str \<Rightarrow> stringConversions lib targetType str
      | VFloat k f \<Rightarrow> (if k = GoFloat64 then floatConversions lib targetType f else None)
      | _ \<Rightarrow> None)"

subsection \<open>Field resolution\<close>

text \<open>The index \<^verbatim>\<open>fieldMap\<close> of decodeMap, built over the fields from index \<open>i\<close> on.\<close>

fun buildFieldMap :: "string \<Rightarrow> field list \<Rightarrow> nat \<Rightarrow> (string \<rightharpoonup> nat) \<Rightarrow> (string \<rightharpoonup> nat)" where
  "buildFieldMap tagName [] i fieldMap = fieldMap"
| "buildFieldMap tagName (fld # flds) i fieldMap =
     (if \<not> IsExported fld then buildFieldMap tagName flds (Suc i) fieldMap
      else
        (let tag = TagGet fld tagName;
             parts0 = hd (Split tag CHR '','');
             fieldMap1 = (if tag \<noteq> [] \<and> parts0 \<noteq> [] \<and> parts0 \<noteq> ''-''
                          then fieldMap(parts0 \<mapsto> i) else fieldMap)
         in buildFieldMap tagName flds (Suc i)
              (fieldMap1(ToLower (Name (fst fld)) \<mapsto> i))))"

text \<open>The two lookups of the decoding loop: the key, then the key in lowercase.\<close>

definition lookupField :: "(string \<rightharpoonup> nat) \<Rightarrow> string \<Rightarrow> nat option" where
  "lookupField fieldMap key =
     (case fieldMap key of
        Some fieldIndex \<Rightarrow> Some fieldIndex
      | None \<Rightarrow> fieldMap (ToLower key))"

subsection \<open>setValue and decodeMap\<close>

definition sliceElems :: "gvalue \<Rightarrow> gvalue list" where
  "sliceElems v = (case v of VSlice t xs \<Rightarrow> xs | _ \<Rightarrow> [])"

definition mapEntries :: "gvalue \<Rightarrow> (gvalue \<times> gvalue) list" where
  "mapEntries v = (case v of VMap k t es \<Rightarrow> es | _ \<Rightarrow> [])"

definition stringOf :: "gvalue \<Rightarrow> string" where
  "stringOf v = (case v of VString s \<Rightarrow> s | _ \<Rightarrow> [])"

text \<open>The type assertion \<^verbatim>\<open>source.(map[string]interface{})\<close> and its result.\<close>

definition isStringMap :: "gvalue \<Rightarrow> bool" where
  "isStringMap source = (source \<noteq> VNil \<and> typeOf source = TMap TString TInterface)"

definition toDocument :: "gvalue \<Rightarrow> document" where
  "toDocument source = map (\<lambda>e. (stringOf (fst e), snd e)) (mapEntries source)"

text \<open>\<^verbatim>\<open>Value.SetMapIndex\<close>.\<close>

fun SetMapIndex :: "gvalue \<Rightarrow> gvalue \<Rightarrow> (gvalue \<times> gvalue) list \<Rightarrow> (gvalue \<times> gvalue) list" where
  "SetMapIndex k v [] = [(k, v)]"
| "SetMapIndex k v (e # es) = (if fst e = k then (k, v) # es else e # SetMapIndex k v es)"

definition fieldValues :: "gvalue \<Rightarrow> gvalue list" where
  "fieldValues v = (case v of VStruct fs vs \<Rightarrow> vs | _ \<Rightarrow> [])"

definition structFields :: "gotype \<Rightarrow> field list" where
  "structFields t = (case t of TStruct fs \<Rightarrow> fs | _ \<Rightarrow> [])"

definition elemType :: "gotype \<Rightarrow> gotype" where
  "elemType t = (case t of TSlice e \<Rightarrow> e | TMap k e \<Rightarrow> e | TPtr e \<Rightarrow> e | _ \<Rightarrow> t)"

definition keyType :: "gotype \<Rightarrow> gotype" where
  "keyType t = (case t of TMap k e \<Rightarrow> k | _ \<Rightarrow> t)"

definition destValue :: "dest \<Rightarrow> gvalue" where
  "destValue output = (case output of DPtr t v \<Rightarrow> v | DNonPtr v \<Rightarrow> v | _ \<Rightarrow> VNil)"

text \<open>\<^verbatim>\<open>Value.IsNil\<close> and \<^verbatim>\<open>Value.Elem\<close> on a pointer.\<close>

definition IsNil :: "gvalue \<Rightarrow> bool" where
  "IsNil v = (case v of VNilPtr t \<Rightarrow> True | VNilSlice t \<Rightarrow> True | VNilMap k t \<Rightarrow> True
              | VNil \<Rightarrow> True | _ \<Rightarrow> False)"

definition Elem :: "gvalue \<Rightarrow> gvalue" where
  "Elem v = (case v of VPtr t x \<Rightarrow> x | _ \<Rightarrow> VNil)"

text \<open>\<^verbatim>\<open>Value.CanSet\<close> of a field of an addressable struct: the field is exported.\<close>

definition CanSet :: "field \<Rightarrow> bool" where
  "CanSet fld = IsExported fld"

text \<open>
  \<open>setValue lib d targetType target source\<close> returns the new content of the target
  (a variable of type \<open>targetType\<close> that held \<open>target\<close>) and the error.
  \<open>setSliceElems\<close> and \<open>setMapEntries\<close> are its loops over the elements of a slice
  and the entries of a map; \<open>decodeFields\<close> is the loop of decodeMap over the document,
  on the field values of the struct and the list \<^verbatim>\<open>unknownKeys\<close>.
  \<^verbatim>\<open>rv.Field(i)\<close> panics on an index the value does not have; a value that has the
  fields of its type never gets there.
\<close>

function setValue :: "golib \<Rightarrow> MapDecoder \<Rightarrow> gotype \<Rightarrow> gvalue \<Rightarrow> gvalue \<Rightarrow> gvalue \<times> error option"
  and setSliceElems :: "golib \<Rightarrow> MapDecoder \<Rightarrow> gotype \<Rightarrow> gvalue list \<Rightarrow> error + gvalue list"
  and setMapEntries :: "golib \<Rightarrow> MapDecoder \<Rightarrow> gotype \<Rightarrow> gotype \<Rightarrow> (gvalue \<times> gvalue) list
        \<Rightarrow> (gvalue \<times> gvalue) list \<Rightarrow> error + (gvalue \<times> gvalue) list"
  and decodeMap :: "golib \<Rightarrow> MapDecoder \<Rightarrow> document \<Rightarrow> dest \<Rightarrow> dest \<times> error option"
  and decodeFields :: "golib \<Rightarrow> MapDecoder \<Rightarrow> field list \<Rightarrow> (string \<rightharpoonup> nat) \<Rightarrow> document
        \<Rightarrow> gvalue list \<Rightarrow> string list \<Rightarrow> gvalue list \<times> string list \<times> error option"
where
  "setValue lib d targetType target source =
     (if source = VNil then (zeroValue targetType, None)
      else if AssignableTo (typeOf source) targetType then (source, None)
      else
        (case (if WeaklyTyped d then weakConversions lib targetType source else None) of
           Some v \<Rightarrow> (v, None)
         | None \<Rightarrow>
            if Kind targetType = KSlice \<and> Kind (typeOf source) = KSlice then
              (case setSliceElems lib d (elemType targetType) (sliceElems source) of
                 Inl err \<Rightarrow> (target, Some err)
               | Inr elems \<Rightarrow> (VSlice (elemType targetType) elems, None))
            else if Kind targetType = KMap \<and> Kind (typeOf source) = KMap then
              (case setMapEntries lib d (keyType targetType) (elemType targetType)
                      (mapEntries source) [] of
                 Inl err \<Rightarrow> (target, Some err)
               | Inr newMap \<Rightarrow> (VMap (keyType targetType) (elemType targetType) newMap, None))
            else if Kind targetType = KStruct \<and> isStringMap source then
              (case decodeMap lib d (toDocument source) (DPtr targetType target) of
                 (output, err) \<Rightarrow> (destValue output, err))
            else if Kind targetType = KPtr then
              (if Kind (typeOf source) = KPtr \<and> IsNil source
               then (zeroValue targetType, None)
               else
                 (case setValue lib d (elemType targetType) (zeroValue (elemType targetType))
                         (if Kind (typeOf source) = KPtr then Elem source else source) of
                    (ptr, Some err) \<Rightarrow> (target, Some err)
                  | (ptr, None) \<Rightarrow> (VPtr (elemType targetType) ptr, None)))
            else if ConvertibleTo (typeOf source) targetType then
              (Convert lib source targetType, None)
            else (target, Some (ErrTypeConversion source (typeOf source) targetType))))"
| "setSliceElems lib d elem [] = Inr []"
| "setSliceElems lib d elem (x # xs) =
     (case setValue lib d elem (zeroValue elem) x of
        (v, Some err) \<Rightarrow> Inl err
      | (v, None) \<Rightarrow>
          (case setSliceElems lib d elem xs of
             Inl err \<Rightarrow> Inl err
           | Inr vs \<Rightarrow> Inr (v # vs)))"
| "setMapEntries lib d targetKeyType targetValueType [] newMap = Inr newMap"
| "setMapEntries lib d targetKeyType targetValueType (e # es) newMap =
     (case setValue lib d targetKeyType (zeroValue targetKeyType) (fst e) of
        (newKey, Some err) \<Rightarrow> Inl (ErrMapKey err)
      | (newKey, None) \<Rightarrow>
          (case setValue lib d targetValueType (zeroValue targetValueType) (snd e) of
             (newValue, Some err) \<Rightarrow> Inl (ErrMapValue err)
           | (newValue, None) \<Rightarrow>
               setMapEntries lib d targetKeyType targetValueType es
                 (SetMapIndex newKey newValue newMap)))"
| "decodeMap lib d m output =
     (case output of
        DPtr rt rv \<Rightarrow>
          if Kind rt \<noteq> KStruct then
            (if length m = 1 then
               (case setValue lib d rt rv (snd (hd m)) of
                  (v, err) \<Rightarrow> (DPtr rt v, err))
             else (output, Some (ErrNotStructDestination (Kind rt))))
          else
            (case decodeFields lib d (structFields rt)
                    (buildFieldMap (TagName d) (structFields rt) 0 Map.empty) m
                    (fieldValues (if ZeroFields d then zeroValue rt else rv)) [] of
               (vals, unknownKeys, Some err) \<Rightarrow>
                 (DPtr rt (VStruct (structFields rt) vals), Some err)
             | (vals, unknownKeys, None) \<Rightarrow>
                 if \<not> IgnoreUnknownKeys d \<and> length unknownKeys > 0
                 then (DPtr rt (VStruct (structFields rt) vals),
                       Some (ErrUnknownField (hd unknownKeys)))
                 else (DPtr rt (VStruct (structFields rt) vals), None))
      | _ \<Rightarrow> (output, Some ErrInvalidDestination))"
| "decodeFields lib d fs fieldMap [] vals unknownKeys = (vals, unknownKeys, None)"
| "decodeFields lib d fs fieldMap (kv # rest) vals unknownKeys =
     (case lookupField fieldMap (fst kv) of
        None \<Rightarrow> decodeFields lib d fs fieldMap rest vals (unknownKeys @ [fst kv])
      | Some fieldIndex \<Rightarrow>
          if \<not> (fieldIndex < length fs \<and> fieldIndex < length vals)
          then (vals, unknownKeys, Some ErrPanic)
          else if \<not> CanSet (fs ! fieldIndex)
          then decodeFields lib d fs fieldMap rest vals unknownKeys
          else
            (case setValue lib d (Type (fs ! fieldIndex)) (vals ! fieldIndex) (snd kv) of
               (v, Some err) \<Rightarrow>
                 (vals[fieldIndex := v], unknownKeys,
                  Some (ErrSettingField (Name (fst (fs ! fieldIndex))) err))
             | (v, None) \<Rightarrow>
                 decodeFields lib d fs fieldMap rest (vals[fieldIndex := v]) unknownKeys))"
  by pat_completeness auto
termination
proof -
  have sl: "size_list size (sliceElems v) \<le> size v" for v
    by (cases v) (simp_all add: sliceElems_def)
  have me: "size_list (size_prod size size) (mapEntries v) \<le> size v" for v
    by (cases v) (simp_all add: mapEntries_def)
  have "size_list (\<lambda>e. size (snd e)) (toDocument v)
          \<le> size_list (size_prod size size) (mapEntries v)" for v
    unfolding toDocument_def size_list_map
    by (rule size_list_pointwise) (simp add: size_prod_simp)
  then have td: "size_list (\<lambda>e. size (snd e)) (toDocument v) \<le> size v" for v
    using me [of v] by (rule order_trans)
  have el: "Kind (typeOf v) = KPtr \<Longrightarrow> \<not> IsNil v \<Longrightarrow> size (Elem v) < size v" for v
    by (cases v) (simp_all add: IsNil_def Elem_def)
  have et: "Kind t = KPtr \<Longrightarrow> size (elemType t) < size t" for t
    by (cases t) (simp_all add: elemType_def)
  have hm: "length m = Suc 0 \<Longrightarrow> size (snd (hd m)) < size_list (\<lambda>e. size (snd e)) m"
    for m :: document
    by (cases m) simp_all
  have pf: "size (fst e) < Suc (size_prod size size e + n)"
    for e :: "gvalue \<times> gvalue" and n
    by (cases e) simp
  have ps: "size (snd e) < Suc (size_prod size size e + n)"
    for e :: "gvalue \<times> gvalue" and n
    by (cases e) simp
  show ?thesis
    apply (relation "inv_image (less_than <*lex*> less_than)
      (\<lambda>x. case x of
          Inl (Inl (lib, d, t, tgt, src)) \<Rightarrow> (size src, size t + 2)
        | Inl (Inr (lib, d, t, xs)) \<Rightarrow> (size_list size xs, 0)
        | Inr (Inl (lib, d, kt, vt, es, acc)) \<Rightarrow> (size_list (size_prod size size) es, 0)
        | Inr (Inr (Inl (lib, d, m, out))) \<Rightarrow> (size_list (\<lambda>e. size (snd e)) m, 1)
        | Inr (Inr (Inr (lib, d, fs, fm, m, vals, unk))) \<Rightarrow>
            (size_list (\<lambda>e. size (snd e)) m, 0))")
                  apply (simp add: wf_lex_prod)
                 apply (simp_all add: le_imp_less_or_eq sl me td el et hm pf ps)
    done
qed

declare setValue.simps [simp del] decodeMap.simps [simp del]

subsection \<open>The public functions\<close>

text \<open>The input of Decode: \<^verbatim>\<open>[]byte\<close>, \<^verbatim>\<open>string\<close> or \<^verbatim>\<open>map[string]interface{}\<close>.
  (The struct-to-struct branch of Decode, decodeValue, is not part of this
  development.)\<close>

datatype input = IBytes string | IString string | IMap document

function Decode :: "golib \<Rightarrow> MapDecoder \<Rightarrow> input \<Rightarrow> dest \<Rightarrow> dest \<times> error option" where
  "Decode lib d (IBytes v) output =
     (case (if length (TrimSpace v) > 0 \<and> hd (TrimSpace v) \<noteq> CHR ''{''
               \<and> hd (TrimSpace v) \<noteq> CHR ''[''
            then (case yamlUnmarshalMap lib v of Inr m \<Rightarrow> Some m | Inl err \<Rightarrow> None)
            else None) of
        Some m \<Rightarrow> decodeMap lib d m output
      | None \<Rightarrow>
          (case jsonUnmarshal lib v output of
             (output1, None) \<Rightarrow> (output1, None)
           | (output1, Some e) \<Rightarrow>
               (case jsonUnmarshalMap lib v of
                  Inl err \<Rightarrow> (output1, Some (ErrParseJSON err))
                | Inr m \<Rightarrow> decodeMap lib d m output1)))"
| "Decode lib d (IString v) output = Decode lib d (IBytes v) output"
| "Decode lib d (IMap v) output = decodeMap lib d v output"
  by pat_completeness auto
termination
  by (relation "measure (\<lambda>(lib, d, i, out). case i of IString v \<Rightarrow> 1 | _ \<Rightarrow> 0)") auto

definition DecodeJSON :: "golib \<Rightarrow> input \<Rightarrow> dest \<Rightarrow> dest \<times> error option" where
  "DecodeJSON lib jsonData output = Decode lib NewDecoder jsonData output"

text \<open>The type switch of DecodeYAML and AutoDecode on their data.\<close>

definition inputBytes :: "input \<Rightarrow> string option" where
  "inputBytes data = (case data of IBytes v \<Rightarrow> Some v | IString v \<Rightarrow> Some v | _ \<Rightarrow> None)"

definition DecodeYAML :: "golib \<Rightarrow> input \<Rightarrow> dest \<Rightarrow> dest \<times> error option" where
  "DecodeYAML lib yamlData output =
     (case inputBytes yamlData of
        None \<Rightarrow> (output, Some ErrInputType)
      | Some data \<Rightarrow>
          (case yamlUnmarshal lib data output of
             (output1, None) \<Rightarrow> (output1, None)
           | (output1, Some e) \<Rightarrow>
               (case yamlUnmarshalMap lib data of
                  Inl err \<Rightarrow> (output1, Some (ErrParseYAML err))
                | Inr m \<Rightarrow> decodeMap lib (NewDecoder\<lparr>TagName := ''yaml''\<rparr>) m output1)))"

definition AutoDecode :: "golib \<Rightarrow> input \<Rightarrow> dest \<Rightarrow> dest \<times> error option" where
  "AutoDecode lib data output =
     (case inputBytes data of
        None \<Rightarrow> (output, Some ErrInputType)
      | Some bytes0 \<Rightarrow>
          (let bytes = TrimSpace bytes0 in
           if length bytes = 0 then (output, Some ErrEmptyInput)
           else if hd bytes = CHR ''{'' \<or> hd bytes = CHR ''['' then
             (case DecodeJSON lib (IBytes bytes) output of
                (output1, None) \<Rightarrow> (output1, None)
              | (output1, Some err) \<Rightarrow>
                  (case DecodeYAML lib (IBytes bytes) output1 of
                     (output2, None) \<Rightarrow> (output2, None)
                   | (output2, Some yamlErr) \<Rightarrow> (output2, Some err)))
           else DecodeYAML lib (IBytes bytes) output))"

definition DecodeMap :: "golib \<Rightarrow> document \<Rightarrow> dest \<Rightarrow> dest \<times> error option" where
  "DecodeMap lib m output = Decode lib NewDecoder (IMap m) output"

text \<open>\<^verbatim>\<open>result[name] = value\<close> on the map that ToMap builds.\<close>

fun setKey :: "string \<Rightarrow> gvalue \<Rightarrow> document \<Rightarrow> document" where
  "setKey name v [] = [(name, v)]"
| "setKey name v (e # es) = (if fst e = name then (name, v) # es else e # setKey name v es)"

text \<open>The loop of ToMap over the fields and their values. (The two lists have the same
  length for a struct value of its type; the loop ends where either does.)\<close>

fun toMapFields :: "string \<Rightarrow> field list \<Rightarrow> gvalue list \<Rightarrow> document \<Rightarrow> document" where
  "toMapFields tagName (fld # flds) (val # vals) result =
     (if \<not> IsExported fld then toMapFields tagName flds vals result
      else if TagGet fld tagName \<noteq> [] \<and> hd (Split (TagGet fld tagName) CHR '','') = ''-''
      then toMapFields tagName flds vals result
      else if IsZero (Type fld) val \<and> Contains (TagGet fld tagName) ''omitempty''
      then toMapFields tagName flds vals result
      else toMapFields tagName flds vals
             (setKey
                (if TagGet fld tagName \<noteq> [] \<and> hd (Split (TagGet fld tagName) CHR '','') \<noteq> []
                    \<and> hd (Split (TagGet fld tagName) CHR '','') \<noteq> ''-''
                 then hd (Split (TagGet fld tagName) CHR '','')
                 else Name (fst fld))
                val result))"
| "toMapFields tagName flds vals result = result"

text \<open>ToMap: one pointer is followed, and the kind tested is that of the pointer's
  element type.\<close>

definition ToMap :: "gvalue \<Rightarrow> error + document" where
  "ToMap input =
     (let rvKind = (case input of VNil \<Rightarrow> KInvalid | VNilPtr t \<Rightarrow> KInvalid
                    | VPtr t v \<Rightarrow> Kind t | _ \<Rightarrow> Kind (typeOf input));
          rv = (case input of VPtr t v \<Rightarrow> v | _ \<Rightarrow> input);
          rt = (case input of VPtr t v \<Rightarrow> t | _ \<Rightarrow> typeOf input)
      in if rvKind \<noteq> KStruct then Inl (ErrNotAStruct rvKind)
         else Inr (toMapFields (TagName NewDecoder) (structFields rt) (fieldValues rv) []))"

subsection \<open>What the claims speak of\<close>

text \<open>The value of a string of decimal digits.\<close>

definition decimalValue :: "string \<Rightarrow> nat" where
  "decimalValue digits = foldl (\<lambda>n c. n * 10 + digitVal c) 0 digits"

text \<open>A variable of type \<open>t\<close> can hold \<open>v\<close> as it is: the type of \<open>v\<close> is \<open>t\<close>, or
  \<open>t\<close> is the empty interface.\<close>

definition holds :: "gotype \<Rightarrow> gvalue \<Rightarrow> bool" where
  "holds t v = (if v = VNil then t = TInterface else AssignableTo (typeOf v) t)"

text \<open>What ToMap does with one field: the key it stores the field under, whether the
  tag excludes the field, and whether the field is stored at all.\<close>

definition fieldKey :: "string \<Rightarrow> field \<Rightarrow> string" where
  "fieldKey tagName fld =
     (if TagGet fld tagName \<noteq> [] \<and> hd (Split (TagGet fld tagName) CHR '','') \<noteq> []
      then hd (Split (TagGet fld tagName) CHR '','') else Name (fst fld))"

definition excluded :: "string \<Rightarrow> field \<Rightarrow> bool" where
  "excluded tagName fld =
     (TagGet fld tagName \<noteq> [] \<and> hd (Split (TagGet fld tagName) CHR '','') = ''-'')"

definition projected :: "string \<Rightarrow> field \<Rightarrow> gvalue \<Rightarrow> bool" where
  "projected tagName fld v =
     (IsExported fld \<and> \<not> excluded tagName fld
      \<and> \<not> (IsZero (Type fld) v \<and> Contains (TagGet fld tagName) ''omitempty''))"

subsection \<open>Concrete inputs\<close>

text \<open>A library whose parsers reject everything.\<close>

definition failLib :: golib where
  "failLib = \<lparr>ParseFloat = (\<lambda>s b. None), RoundFloat32 = (\<lambda>f. f), FloatToInt64 = (\<lambda>f. 0),
     FloatToUint64 = (\<lambda>f. 0), FormatFloat = (\<lambda>f. []), TimeParse = (\<lambda>l s. None),
     Convert = (\<lambda>v t. v), jsonUnmarshal = (\<lambda>b out. (out, Some (ErrLibrary ''json''))),
     jsonUnmarshalMap = (\<lambda>b. Inl (ErrLibrary ''json'')),
     yamlUnmarshal = (\<lambda>b out. (out, Some (ErrLibrary ''yaml''))),
     yamlUnmarshalMap = (\<lambda>b. Inl (ErrLibrary ''yaml''))\<rparr>"

definition exported :: "string \<Rightarrow> string \<Rightarrow> gotype \<Rightarrow> field" where
  "exported n jsonTag t = (\<lparr>Name = n, PkgPath = [], Tag = [(''json'', jsonTag)]\<rparr>, t)"

text \<open>\<^verbatim>\<open>struct { Secret string `json:"-"` }\<close>\<close>

definition secretFields :: "field list" where
  "secretFields = [exported ''Secret'' ''-'' TString]"

text \<open>\<^verbatim>\<open>struct { N int8 `json:"n"` }\<close>\<close>

definition int8Fields :: "field list" where
  "int8Fields = [exported ''N'' ''n'' (TInt GoInt8)]"

text \<open>\<^verbatim>\<open>struct { ID int `json:"id"` }\<close>\<close>

definition idFields :: "field list" where
  "idFields = [exported ''ID'' ''id'' (TInt GoInt)]"

text \<open>A library that knows one input, \<^verbatim>\<open>null\<close>: \<^verbatim>\<open>json.Unmarshal\<close> accepts it and
  leaves the destination as it is, and \<^verbatim>\<open>yaml.Unmarshal\<close> into a map accepts it and
  leaves the map nil.\<close>

definition nullLib :: golib where
  "nullLib = failLib\<lparr>
     jsonUnmarshal := (\<lambda>b out. if b = ''null'' then (out, None)
                                 else (out, Some (ErrLibrary ''json''))),
     yamlUnmarshalMap := (\<lambda>b. if b = ''null'' then Inr [] else Inl (ErrLibrary ''yaml''))\<rparr>"

text \<open>The input \<^verbatim>\<open>{"id": 1, "extra": 2}\<close>, and a library that knows it:
  \<^verbatim>\<open>json.Unmarshal\<close> into a pointer to the struct above sets \<^verbatim>\<open>ID\<close> and skips the
  other key; into a map it gives both entries.\<close>

definition idExtraJSON :: string where
  "idExtraJSON = [CHR ''{'', CHR 0x22] @ ''id'' @ [CHR 0x22] @ '': 1, '' @ [CHR 0x22]
     @ ''extra'' @ [CHR 0x22] @ '': 2}''"

definition idExtraLib :: golib where
  "idExtraLib = failLib\<lparr>
     jsonUnmarshal := (\<lambda>b out.
        if b = idExtraJSON \<and> out = DPtr (TStruct idFields) (VStruct idFields [VInt GoInt 0])
        then (DPtr (TStruct idFields) (VStruct idFields [VInt GoInt 1]), None)
        else (out, Some (ErrLibrary ''json''))),
     jsonUnmarshalMap := (\<lambda>b.
        if b = idExtraJSON
        then Inr [(''id'', VFloat GoFloat64 0x3FF0000000000000),
                  (''extra'', VFloat GoFloat64 0x4000000000000000)]
        else Inl (ErrLibrary ''json''))\<rparr>"

text \<open>\<^verbatim>\<open>struct { A string `json:"a"`; N int `json:"n"` }\<close>, a struct with a field
  \<^verbatim>\<open>Meta\<close> of that type, and the nested document \<^verbatim>\<open>{"a": "x", "n": "abc"}\<close>, visited
  in that order.\<close>

definition metaFields :: "field list" where
  "metaFields = [exported ''A'' ''a'' TString, exported ''N'' ''n'' (TInt GoInt)]"

definition outerFields :: "field list" where
  "outerFields = [exported ''Meta'' ''meta'' (TStruct metaFields)]"

definition metaDocument :: gvalue where
  "metaDocument = VMap TString TInterface
     [(VString ''a'', VString ''x''), (VString ''n'', VString ''abc'')]"

section \<open>Properties\<close>

lemmas field_defs = IsExported_def CanSet_def TagGet_def exported_def lookupField_def
  ToLower_def toLowerChar_def structFields_def fieldValues_def

subsection \<open>String and byte-slice inputs\<close>

text \<open>
  C10. For every string \<open>s\<close>, every decoder and every destination, Decode on the string
  returns exactly what Decode returns on the bytes of \<open>s\<close>: the same destination content
  and the same error.
\<close>

theorem Decode_string_as_bytes:
  "Decode lib d (IString s) output = Decode lib d (IBytes s) output"
  by simp

subsection \<open>A field tagged with a dash\<close>

text \<open>
  C1. The claim: a field whose tag is exactly \<^verbatim>\<open>-\<close> is never populated by decoding,
  whatever the key. The code at \<^verbatim>\<open>struct { Secret string `json:"-"` }\<close> and the
  document \<^verbatim>\<open>{"secret": "x"}\<close>: the index leaves the tag name out but still registers
  the field under its lowercase name, so the field is populated. ToMap, on the same type,
  leaves the field out.
\<close>

theorem dash_field_decoded:
  "decodeMap lib NewDecoder [(''secret'', VString ''x'')]
      (DPtr (TStruct secretFields) (VStruct secretFields [VString []]))
    = (DPtr (TStruct secretFields) (VStruct secretFields [VString ''x'']), None)
   \<and> ToMap (VStruct secretFields [VString ''x'']) = Inr []"
  by (simp add: setValue.simps decodeMap.simps NewDecoder_def secretFields_def field_defs AssignableTo_def
      ToMap_def)

subsection \<open>Strings to booleans\<close>

lemma setValue_bool:
  assumes "WeaklyTyped d"
  shows "setValue lib d TBool target (VString s) =
    (case stringSwitch lib TBool s of Some v \<Rightarrow> (v, None)
     | None \<Rightarrow> (target, Some (ErrTypeConversion (VString s) TString TBool)))"
  using assms
  by (simp add: setValue.simps AssignableTo_def weakConversions_def stringConversions_def
      timeType_def ConvertibleTo_def isNumeric_def isInteger_def isByteOrRuneSlice_def isStringMap_def
      split: option.splits)

text \<open>
  C7. With weak typing, a string whose lowercase form is one of true, 1, t, yes, y, on sets
  a boolean target to true; one of false, 0, f, no, n, off sets it to false; a string
  outside both sets that \<^verbatim>\<open>strconv.ParseBool\<close> rejects fails with the type-conversion
  error, and the target keeps its content.
\<close>

theorem string_to_bool:
  assumes "WeaklyTyped d"
  shows "(ToLower s \<in> set [''true'', ''1'', ''t'', ''yes'', ''y'', ''on'']
            \<longrightarrow> setValue lib d TBool target (VString s) = (VBool True, None))
       \<and> (ToLower s \<in> set [''false'', ''0'', ''f'', ''no'', ''n'', ''off'']
            \<longrightarrow> setValue lib d TBool target (VString s) = (VBool False, None))
       \<and> (ToLower s \<notin> set [''true'', ''1'', ''t'', ''yes'', ''y'', ''on'']
            \<and> ToLower s \<notin> set [''false'', ''0'', ''f'', ''no'', ''n'', ''off'']
            \<and> ParseBool s = None
            \<longrightarrow> setValue lib d TBool target (VString s)
                  = (target, Some (ErrTypeConversion (VString s) TString TBool)))"
  unfolding setValue_bool [OF assms]
  by (auto simp: stringSwitch_def)

theorem string_to_bool_witness:
  "setValue failLib NewDecoder TBool (VBool False) (VString ''YES'') = (VBool True, None)
   \<and> setValue failLib NewDecoder TBool (VBool True) (VString ''Off'') = (VBool False, None)
   \<and> setValue failLib NewDecoder TBool (VBool True) (VString ''maybe'')
       = (VBool True, Some (ErrTypeConversion (VString ''maybe'') TString TBool))"
proof -
  have w: "WeaklyTyped NewDecoder" by (simp add: NewDecoder_def)
  show ?thesis
    using string_to_bool [OF w, of "''YES''" failLib "VBool False"]
      string_to_bool [OF w, of "''Off''" failLib "VBool True"]
      string_to_bool [OF w, of "''maybe''" failLib "VBool True"]
    by (simp add: ToLower_def toLowerChar_def ParseBool_def)
qed

subsection \<open>Strings to integers\<close>

lemma digits_step_ge: "n \<le> foldl (\<lambda>n c. n * 10 + digitVal c) n cs"
proof (induction cs arbitrary: n)
  case Nil
  show ?case by simp
next
  case (Cons c cs)
  have "n \<le> n * 10 + digitVal c" by simp
  also have "\<dots> \<le> foldl (\<lambda>n c. n * 10 + digitVal c) (n * 10 + digitVal c) cs"
    by (rule Cons.IH)
  finally show ?case by simp
qed

lemma max_uint_le: "bitSize \<le> 64 \<Longrightarrow> (2::nat) ^ bitSize - 1 \<le> 18446744073709551615"
proof -
  assume "bitSize \<le> 64"
  then have "(2::nat) ^ bitSize \<le> 2 ^ 64" by (rule power_increasing) simp
  then show ?thesis by simp
qed

lemma parseUintLoop_digits:
  assumes "\<forall>c\<in>set cs. isDigit c" and "bitSize \<le> 64" and "n \<le> 2 ^ bitSize - 1"
  shows "parseUintLoop bitSize n cs =
           (if foldl (\<lambda>n c. n * 10 + digitVal c) n cs \<le> 2 ^ bitSize - 1
            then Inr (foldl (\<lambda>n c. n * 10 + digitVal c) n cs) else Inl ErrRange)"
  using assms(1) assms(3)
proof (induction cs arbitrary: n)
  case Nil
  then show ?case by simp
next
  case (Cons c cs)
  let ?f = "foldl (\<lambda>n c. n * 10 + digitVal c)"
  have dig: "isDigit c" and rest: "\<forall>c\<in>set cs. isDigit c" using Cons.prems by simp_all
  have d9: "digitVal c \<le> 9" using dig unfolding isDigit_def digitVal_def by linarith
  have mx: "(2::nat) ^ bitSize - 1 \<le> 18446744073709551615" using assms(2) by (rule max_uint_le)
  have ge: "n * 10 + digitVal c \<le> ?f (n * 10 + digitVal c) cs" by (rule digits_step_ge)
  show ?case
  proof (cases "n \<ge> 1844674407370955162")
    case True
    then have "?f (n * 10 + digitVal c) cs > 2 ^ bitSize - 1" using ge mx by linarith
    with True dig show ?thesis by simp
  next
    case small: False
    then have n10: "(n * 10) mod 2 ^ 64 = n * 10" by simp
    show ?thesis
    proof (cases "n * 10 + digitVal c \<ge> 2 ^ 64")
      case True
      then have wrap: "(n * 10 + digitVal c) mod 2 ^ 64 = n * 10 + digitVal c - 2 ^ 64"
        using small d9 by (simp add: mod_if)
      have "?f (n * 10 + digitVal c) cs > 2 ^ bitSize - 1" using True ge mx by simp
      moreover have "n * 10 + digitVal c - 2 ^ 64 < n * 10" using True d9 by simp
      ultimately show ?thesis using small dig n10 wrap by (simp add: Let_def)
    next
      case False
      then have nowrap: "(n * 10 + digitVal c) mod 2 ^ 64 = n * 10 + digitVal c" by simp
      show ?thesis
      proof (cases "n * 10 + digitVal c > 2 ^ bitSize - 1")
        case True
        then have "?f (n * 10 + digitVal c) cs > 2 ^ bitSize - 1" using ge by linarith
        with small dig n10 nowrap True show ?thesis by (simp add: Let_def)
      next
        case False
        then have le: "n * 10 + digitVal c \<le> 2 ^ bitSize - 1" by simp
        with small dig n10 nowrap Cons.IH [OF rest le]
        show ?thesis by (simp add: Let_def)
      qed
    qed
  qed
qed


lemma ParseUint_digits:
  assumes "digits \<noteq> []" and "\<forall>c\<in>set digits. isDigit c" and "bitSize \<le> 64"
  shows "ParseUint digits bitSize =
           (if decimalValue digits \<le> 2 ^ bitSize - 1 then Inr (decimalValue digits)
            else Inl ErrRange)"
  using assms parseUintLoop_digits [of digits bitSize 0]
  by (simp add: ParseUint_def decimalValue_def)

lemma digit_not_sign: "isDigit c \<Longrightarrow> c \<noteq> CHR ''-'' \<and> c \<noteq> CHR ''+''"
  by (auto simp: isDigit_def)

lemma ParseInt_digits:
  assumes ne: "digits \<noteq> []" and dig: "\<forall>c\<in>set digits. isDigit c"
    and b: "2 \<le> bitSize" "bitSize \<le> 64"
  shows "ParseInt ((if neg then ''-'' else []) @ digits) bitSize =
           (let n = (if neg then - int (decimalValue digits) else int (decimalValue digits))
            in if - (2 ^ (bitSize - 1)) \<le> n \<and> n < 2 ^ (bitSize - 1) then Inr n
               else Inl ErrRange)"
proof -
  let ?v = "decimalValue digits"
  let ?c = "(2::nat) ^ (bitSize - 1)"
  have pw: "(2::nat) ^ bitSize = 2 * ?c"
    using b(1) by (cases bitSize) simp_all
  have c2: "2 \<le> ?c"
    using b(1) power_increasing [of 1 "bitSize - 1" "2::nat"] by simp
  have hd: "hd digits \<noteq> CHR ''-''" "hd digits \<noteq> CHR ''+''"
    using ne dig digit_not_sign by (cases digits; auto)+
  have pu: "ParseUint digits bitSize =
           (if ?v \<le> 2 * ?c - 1 then Inr ?v else Inl ErrRange)"
    using ParseUint_digits [OF ne dig b(2)] pw by simp
  have c3: "?c < 2 * ?c - 1" using c2 by linarith
  have nl: "- int ?v < 2 ^ (bitSize - Suc 0)"
    by (rule less_le_trans [of _ 1]) simp_all
  have ng: "- (2 ^ (bitSize - Suc 0)) \<le> int ?v"
    by (rule order_trans [of _ 0]) simp_all
  show ?thesis
  proof (cases neg)
    case True
    show ?thesis
    proof (cases "?v \<le> 2 * ?c - 1")
      case le: True
      with True pu nl show ?thesis
        by (simp add: ParseInt_def Let_def)
    next
      case gt: False
      with True pu c2 c3 nl show ?thesis
        by (simp add: ParseInt_def Let_def pw)
    qed
  next
    case False
    show ?thesis
    proof (cases "?v \<le> 2 * ?c - 1")
      case le: True
      with False pu ne hd ng show ?thesis
        by (simp add: ParseInt_def Let_def)
    next
      case gt: False
      with False pu ne hd c2 c3 ng show ?thesis
        by (simp add: ParseInt_def Let_def pw)
    qed
  qed
qed


lemma in_range_take_bit:
  "- (2 ^ n) \<le> (i::int) \<Longrightarrow> i < 2 ^ n \<Longrightarrow> signed_take_bit n i = i"
  by (simp add: signed_take_bit_int_eq_self)

lemma intBits_bounds: "2 \<le> intBits k \<and> intBits k \<le> 64"
  by (cases k) simp_all

lemma setValue_string_int:
  assumes "WeaklyTyped d"
  shows "setValue lib d (TInt k) target (VString s) =
    (case ParseInt s (intBits k) of
       Inr i \<Rightarrow> (SetInt k i, None)
     | Inl err \<Rightarrow> (target, Some (ErrTypeConversion (VString s) TString (TInt k))))"
  using assms
  by (simp add: setValue.simps AssignableTo_def weakConversions_def stringConversions_def
      stringSwitch_def timeType_def ConvertibleTo_def isNumeric_def isInteger_def isByteOrRuneSlice_def
      isStringMap_def split: sum.splits)

lemma buildFieldMap_Some:
  "buildFieldMap tagName fs i fieldMap key = Some j \<Longrightarrow>
     fieldMap key = Some j \<or> (i \<le> j \<and> j < i + length fs \<and> IsExported (fs ! (j - i)))"
proof (induction fs arbitrary: i fieldMap)
  case Nil
  then show ?case by simp
next
  case (Cons fld flds)
  show ?case
  proof (cases "IsExported fld")
    case False
    with Cons.prems have "buildFieldMap tagName flds (Suc i) fieldMap key = Some j" by simp
    from Cons.IH [OF this] show ?thesis
      by (auto simp: Suc_diff_le)
  next
    case True
    let ?tag = "TagGet fld tagName"
    let ?p = "hd (Split ?tag CHR '','')"
    let ?m1 = "if ?tag \<noteq> [] \<and> ?p \<noteq> [] \<and> ?p \<noteq> ''-'' then fieldMap(?p \<mapsto> i) else fieldMap"
    from True Cons.prems
    have "buildFieldMap tagName flds (Suc i) (?m1(ToLower (Name (fst fld)) \<mapsto> i)) key = Some j"
      by (simp add: Let_def)
    from Cons.IH [OF this] True show ?thesis
      by (auto simp: Suc_diff_le split: if_splits)
  qed
qed

lemma lookupField_Some:
  assumes "lookupField (buildFieldMap tagName fs 0 Map.empty) key = Some j"
  shows "j < length fs \<and> CanSet (fs ! j)"
proof -
  from assms obtain k where "buildFieldMap tagName fs 0 Map.empty k = Some j"
    by (auto simp: lookupField_def split: option.splits)
  from buildFieldMap_Some [OF this] show ?thesis
    by (simp add: CanSet_def)
qed

lemma fieldValues_zero: "fieldValues (zeroValue (TStruct fs)) = map (\<lambda>f. zeroValue (Type f)) fs"
  by (simp add: fieldValues_def)

text \<open>
  C5. With weak typing, let \<open>s\<close> be a string of decimal digits with an optional minus
  sign, \<open>n\<close> the integer it denotes, and let the key of the document
  \<^verbatim>\<open>{key: s}\<close> resolve to an integer field of the destination record. If \<open>n\<close> fits the
  width of the field, decoding succeeds and the field holds \<open>n\<close>; if it does not, decoding
  fails with the type-conversion error, wrapped with the field's name, and the record
  holds what it held before the conversion (the field is not set to zero).
\<close>

theorem string_to_int:
  assumes weak: "WeaklyTyped d"
    and digits: "digits \<noteq> []" "\<forall>c\<in>set digits. isDigit c"
    and s: "s = (if neg then ''-'' else []) @ digits"
    and n: "n = (if neg then - int (decimalValue digits) else int (decimalValue digits))"
    and field: "lookupField (buildFieldMap (TagName d) fs 0 Map.empty) key = Some i"
      "Type (fs ! i) = TInt k"
    and vals: "vals = fieldValues (if ZeroFields d then zeroValue (TStruct fs) else rv)"
      "i < length vals"
  shows "(- (2 ^ (intBits k - 1)) \<le> n \<and> n < 2 ^ (intBits k - 1) \<longrightarrow>
            decodeMap lib d [(key, VString s)] (DPtr (TStruct fs) rv)
              = (DPtr (TStruct fs) (VStruct fs (vals[i := VInt k n])), None))
       \<and> (\<not> (- (2 ^ (intBits k - 1)) \<le> n \<and> n < 2 ^ (intBits k - 1)) \<longrightarrow>
            decodeMap lib d [(key, VString s)] (DPtr (TStruct fs) rv)
              = (DPtr (TStruct fs) (VStruct fs vals),
                 Some (ErrSettingField (Name (fst (fs ! i)))
                         (ErrTypeConversion (VString s) TString (TInt k)))))"
proof -
  have fi: "i < length fs" "CanSet (fs ! i)"
    using lookupField_Some [OF field(1)] by simp_all
  have pi: "ParseInt s (intBits k) =
      (if - (2 ^ (intBits k - 1)) \<le> n \<and> n < 2 ^ (intBits k - 1) then Inr n else Inl ErrRange)"
    using ParseInt_digits [OF digits, of "intBits k" neg] intBits_bounds [of k]
    by (simp add: s n Let_def)
  have sv: "setValue lib d (Type (fs ! i)) (vals ! i) (VString s) =
      (if - (2 ^ (intBits k - 1)) \<le> n \<and> n < 2 ^ (intBits k - 1) then (VInt k n, None)
       else (vals ! i, Some (ErrTypeConversion (VString s) TString (TInt k))))"
    unfolding field(2) setValue_string_int [OF weak] pi
    by (simp add: SetInt_def in_range_take_bit)
  show ?thesis
    using fi field(1) vals(2) sv
    by (simp add: decodeMap.simps structFields_def vals(1) [symmetric])
qed


theorem string_to_int_witness:
  "decodeMap failLib (NewDecoder\<lparr>ZeroFields := False\<rparr>) [(''n'', VString ''-128'')]
      (DPtr (TStruct int8Fields) (VStruct int8Fields [VInt GoInt8 5]))
     = (DPtr (TStruct int8Fields) (VStruct int8Fields [VInt GoInt8 (- 128)]), None)
   \<and> decodeMap failLib (NewDecoder\<lparr>ZeroFields := False\<rparr>) [(''n'', VString ''128'')]
      (DPtr (TStruct int8Fields) (VStruct int8Fields [VInt GoInt8 5]))
     = (DPtr (TStruct int8Fields) (VStruct int8Fields [VInt GoInt8 5]),
        Some (ErrSettingField ''N'' (ErrTypeConversion (VString ''128'') TString (TInt GoInt8))))"
proof -
  let ?d = "NewDecoder\<lparr>ZeroFields := False\<rparr>"
  let ?rv = "VStruct int8Fields [VInt GoInt8 5]"
  have w: "WeaklyTyped ?d" by (simp add: NewDecoder_def)
  have dg: "''128'' \<noteq> []" "\<forall>c\<in>set ''128''. isDigit c" by (simp_all add: isDigit_def)
  have lk: "lookupField (buildFieldMap (TagName ?d) int8Fields 0 Map.empty) ''n'' = Some 0"
    by (simp add: NewDecoder_def int8Fields_def field_defs)
  have ty: "Type (int8Fields ! 0) = TInt GoInt8" by (simp add: int8Fields_def exported_def)
  have vs: "[VInt GoInt8 5] = fieldValues (if ZeroFields ?d then zeroValue (TStruct int8Fields) else ?rv)"
    "0 < length [VInt GoInt8 5]"
    by (simp_all add: NewDecoder_def fieldValues_def)
  have dv: "decimalValue ''128'' = 128" by (simp add: decimalValue_def digitVal_def)
  show ?thesis
    using string_to_int [OF w dg _ _ lk ty vs, of "''-128''" True "- 128" failLib]
      string_to_int [OF w dg _ _ lk ty vs, of "''128''" False "128" failLib]
    by (simp add: dv int8Fields_def exported_def)
qed

subsection \<open>The destination of decodeMap\<close>

text \<open>
  C8, as the code has it. A destination that is nil, not a pointer, or a nil pointer
  fails with the invalid-destination error. For a pointer to a variable that is not a
  struct: a document of exactly one entry is decoded by coercing its value into the
  variable, and the result, success or failure, is that of the coercion; a document of
  any other size fails.
\<close>

theorem decodeMap_destination:
  "decodeMap lib d m DNil = (DNil, Some ErrInvalidDestination)
   \<and> decodeMap lib d m (DNonPtr v) = (DNonPtr v, Some ErrInvalidDestination)
   \<and> decodeMap lib d m (DNilPtr t) = (DNilPtr t, Some ErrInvalidDestination)
   \<and> (Kind rt \<noteq> KStruct \<and> length m = 1 \<longrightarrow>
        decodeMap lib d m (DPtr rt rv)
          = (DPtr rt (fst (setValue lib d rt rv (snd (hd m)))),
             snd (setValue lib d rt rv (snd (hd m)))))
   \<and> (Kind rt \<noteq> KStruct \<and> length m \<noteq> 1 \<longrightarrow>
        decodeMap lib d m (DPtr rt rv)
          = (DPtr rt rv, Some (ErrNotStructDestination (Kind rt))))"
  by (simp add: decodeMap.simps case_prod_beta)

theorem decodeMap_destination_witness:
  "decodeMap failLib NewDecoder [(''value'', VString ''hello'')] (DPtr TString (VString []))
     = (DPtr TString (VString ''hello''), None)
   \<and> decodeMap failLib NewDecoder [(''a'', VString ''x''), (''b'', VString ''y'')]
        (DPtr TString (VString []))
     = (DPtr TString (VString []), Some (ErrNotStructDestination KString))"
  using decodeMap_destination [of failLib NewDecoder "[(''value'', VString ''hello'')]" _ _
          TString "VString []"]
    decodeMap_destination [of failLib NewDecoder "[(''a'', VString ''x''), (''b'', VString ''y'')]"
          _ _ TString "VString []"]
  by (simp add: setValue.simps AssignableTo_def)

text \<open>The claim read as "success if and only if the document has exactly one entry"
  fails: one entry, and the coercion of its value fails.\<close>

theorem single_entry_counterexample:
  "length [(''a'', VString ''abc'')] = 1
   \<and> decodeMap failLib NewDecoder [(''a'', VString ''abc'')] (DPtr (TInt GoInt) (VInt GoInt 7))
       = (DPtr (TInt GoInt) (VInt GoInt 7),
          Some (ErrTypeConversion (VString ''abc'') TString (TInt GoInt)))"
  by (simp add: setValue.simps decodeMap.simps NewDecoder_def AssignableTo_def
      weakConversions_def stringConversions_def stringSwitch_def ParseInt_def ParseUint_def isDigit_def timeType_def
      ConvertibleTo_def isNumeric_def isInteger_def isByteOrRuneSlice_def isStringMap_def)

subsection \<open>Format detection\<close>

lemma TrimSpace_Nil: "(TrimSpace b = []) = (dropWhile isSpace b = [])"
proof (cases "dropWhile isSpace b")
  case Nil
  show ?thesis unfolding TrimSpace_def Nil by simp
next
  case (Cons c cs)
  have "\<not> isSpace c" using Cons hd_dropWhile [of isSpace b] by auto
  then show ?thesis unfolding TrimSpace_def Cons by (simp add: dropWhile_append)
qed

lemma TrimSpace_last:
  assumes "dropWhile isSpace b = c # cs"
  shows "\<exists>zs. dropWhile isSpace (rev (c # cs)) = zs @ [c]"
proof -
  have "\<not> isSpace c" using assms hd_dropWhile [of isSpace b] by auto
  then show ?thesis by (simp add: dropWhile_append)
qed

lemma hd_TrimSpace:
  assumes "dropWhile isSpace b \<noteq> []"
  shows "hd (TrimSpace b) = hd (dropWhile isSpace b)"
proof -
  from assms obtain c cs where x: "dropWhile isSpace b = c # cs"
    by (cases "dropWhile isSpace b") auto
  from TrimSpace_last [OF x] obtain zs where "dropWhile isSpace (rev (c # cs)) = zs @ [c]" ..
  then show ?thesis by (simp add: TrimSpace_def x)
qed

lemma TrimSpace_idem: "TrimSpace (TrimSpace b) = TrimSpace b"
proof (cases "dropWhile isSpace b")
  case Nil
  show ?thesis unfolding TrimSpace_def Nil by simp
next
  case (Cons c cs)
  have ns: "\<not> isSpace c" using Cons hd_dropWhile [of isSpace b] by auto
  from TrimSpace_last [OF Cons] obtain zs where z: "dropWhile isSpace (rev (c # cs)) = zs @ [c]" ..
  have t: "TrimSpace b = c # rev zs" using z by (simp add: TrimSpace_def Cons)
  have d: "dropWhile isSpace (TrimSpace b) = TrimSpace b" using ns by (simp add: t)
  have r: "rev (TrimSpace b) = dropWhile isSpace (rev (dropWhile isSpace b))"
    by (simp add: TrimSpace_def)
  have "TrimSpace (TrimSpace b) = rev (dropWhile isSpace (rev (TrimSpace b)))"
    unfolding TrimSpace_def [of "TrimSpace b"] d ..
  also have "\<dots> = rev (dropWhile isSpace (rev (dropWhile isSpace b)))"
    unfolding r dropWhile_idem ..
  also have "\<dots> = TrimSpace b" by (simp add: TrimSpace_def)
  finally show ?thesis .
qed

text \<open>
  C6. Let the data of AutoDecode be the bytes or the string \<open>b\<close>.
  If nothing is left of \<open>b\<close> after trimming, AutoDecode fails with the empty-input error.
  If the first byte of \<open>b\<close> that is not whitespace is an opening brace or bracket,
  AutoDecode runs DecodeJSON on the trimmed input, which goes to the JSON parser without
  trying YAML; only when that fails it runs DecodeYAML, and when that fails too it returns
  the error of DecodeJSON. For any other first byte the result is that of DecodeYAML alone.
\<close>

theorem AutoDecode_format_detection:
  assumes "inputBytes data = Some b"
  shows "(TrimSpace b = [] \<longrightarrow> AutoDecode lib data output = (output, Some ErrEmptyInput))
    \<and> (dropWhile isSpace b \<noteq> []
        \<and> (hd (dropWhile isSpace b) = CHR ''{'' \<or> hd (dropWhile isSpace b) = CHR ''['') \<longrightarrow>
         AutoDecode lib data output =
           (case DecodeJSON lib (IBytes (TrimSpace b)) output of
              (output1, None) \<Rightarrow> (output1, None)
            | (output1, Some err) \<Rightarrow>
                (case DecodeYAML lib (IBytes (TrimSpace b)) output1 of
                   (output2, None) \<Rightarrow> (output2, None)
                 | (output2, Some yamlErr) \<Rightarrow> (output2, Some err)))
         \<and> DecodeJSON lib (IBytes (TrimSpace b)) output =
           (case jsonUnmarshal lib (TrimSpace b) output of
              (output1, None) \<Rightarrow> (output1, None)
            | (output1, Some e) \<Rightarrow>
                (case jsonUnmarshalMap lib (TrimSpace b) of
                   Inl err \<Rightarrow> (output1, Some (ErrParseJSON err))
                 | Inr m \<Rightarrow> decodeMap lib NewDecoder m output1)))
    \<and> (dropWhile isSpace b \<noteq> [] \<and> hd (dropWhile isSpace b) \<noteq> CHR ''{''
        \<and> hd (dropWhile isSpace b) \<noteq> CHR ''['' \<longrightarrow>
         AutoDecode lib data output = DecodeYAML lib (IBytes (TrimSpace b)) output)"
  using assms
  by (auto simp: AutoDecode_def Let_def TrimSpace_Nil hd_TrimSpace DecodeJSON_def TrimSpace_idem)

theorem AutoDecode_format_detection_witness:
  "AutoDecode failLib (IBytes '' '') DNil = (DNil, Some ErrEmptyInput)
   \<and> AutoDecode failLib (IString '' {x'') DNil = (DNil, Some (ErrParseJSON (ErrLibrary ''json'')))
   \<and> AutoDecode failLib (IString ''a: 1'') DNil = (DNil, Some (ErrParseYAML (ErrLibrary ''yaml'')))"
proof -
  have a: "inputBytes (IBytes '' '') = Some '' ''" by (simp add: inputBytes_def)
  have b: "inputBytes (IString '' {x'') = Some '' {x''" by (simp add: inputBytes_def)
  have c: "inputBytes (IString ''a: 1'') = Some ''a: 1''" by (simp add: inputBytes_def)
  show ?thesis
    using AutoDecode_format_detection [OF a, of failLib DNil]
      AutoDecode_format_detection [OF b, of failLib DNil]
      AutoDecode_format_detection [OF c, of failLib DNil]
    by (simp add: TrimSpace_def isSpace_def DecodeYAML_def inputBytes_def failLib_def)
qed

subsection \<open>The native fast path\<close>

text \<open>
  C9, as the code has it. Let the input be bytes or a string that is blank, or starts
  (after whitespace) with an opening brace or bracket, or that the YAML parser does not
  read as a map. If \<^verbatim>\<open>json.Unmarshal\<close> decodes it into the destination without error,
  Decode returns what \<^verbatim>\<open>json.Unmarshal\<close> left in the destination and no error, whatever
  the decoder's options are: no key is checked against the fields.
\<close>

theorem json_fast_path:
  assumes "jsonUnmarshal lib v output = (output1, None)"
    and "TrimSpace v = [] \<or> hd (TrimSpace v) = CHR ''{'' \<or> hd (TrimSpace v) = CHR ''[''
         \<or> isl (yamlUnmarshalMap lib v)"
  shows "Decode lib d (IBytes v) output = (output1, None)
       \<and> Decode lib d (IString v) output = (output1, None)"
  using assms by (auto simp: isl_def)

text \<open>With unknown keys not ignored, the input \<^verbatim>\<open>{"id": 1, "extra": 2}\<close> decodes without
  error, while the same document given as a map fails on the key \<^verbatim>\<open>extra\<close>.\<close>

theorem json_fast_path_witness:
  "Decode idExtraLib (NewDecoder\<lparr>IgnoreUnknownKeys := False\<rparr>) (IBytes idExtraJSON)
      (DPtr (TStruct idFields) (VStruct idFields [VInt GoInt 0]))
     = (DPtr (TStruct idFields) (VStruct idFields [VInt GoInt 1]), None)
   \<and> snd (Decode idExtraLib (NewDecoder\<lparr>IgnoreUnknownKeys := False\<rparr>)
        (IMap [(''id'', VInt GoInt 1), (''extra'', VInt GoInt 2)])
        (DPtr (TStruct idFields) (VStruct idFields [VInt GoInt 0])))
     = Some (ErrUnknownField ''extra'')"
proof -
  have j: "jsonUnmarshal idExtraLib idExtraJSON
      (DPtr (TStruct idFields) (VStruct idFields [VInt GoInt 0]))
     = (DPtr (TStruct idFields) (VStruct idFields [VInt GoInt 1]), None)"
    by (simp add: idExtraLib_def)
  have h: "TrimSpace idExtraJSON = [] \<or> hd (TrimSpace idExtraJSON) = CHR ''{''
       \<or> hd (TrimSpace idExtraJSON) = CHR ''['' \<or> isl (yamlUnmarshalMap idExtraLib idExtraJSON)"
    by (simp add: idExtraJSON_def TrimSpace_def isSpace_def)
  show ?thesis
    using json_fast_path [OF j h, of "NewDecoder\<lparr>IgnoreUnknownKeys := False\<rparr>"]
    by (simp add: setValue.simps decodeMap.simps NewDecoder_def idFields_def field_defs
        AssignableTo_def)
qed

text \<open>The claim for every input that \<^verbatim>\<open>json.Unmarshal\<close> accepts fails on \<^verbatim>\<open>null\<close>
  with a destination that is not a struct: its first byte is no brace, the YAML parser
  reads it as a nil map, and decodeMap rejects the destination.\<close>

theorem json_null_counterexample:
  "jsonUnmarshal nullLib ''null'' (DPtr (TInt GoInt) (VInt GoInt 7))
     = (DPtr (TInt GoInt) (VInt GoInt 7), None)
   \<and> Decode nullLib NewDecoder (IBytes ''null'') (DPtr (TInt GoInt) (VInt GoInt 7))
     = (DPtr (TInt GoInt) (VInt GoInt 7), Some (ErrNotStructDestination (KInt GoInt)))"
  by (simp add: decodeMap.simps nullLib_def failLib_def TrimSpace_def isSpace_def)

subsection \<open>A conversion that fails\<close>

lemma setValue_failure_target:
  assumes "setValue lib d targetType target source = (v, Some err)"
    and "\<not> (Kind targetType = KStruct \<and> isStringMap source)"
  shows "v = target"
  using assms
  by (subst (asm) setValue.simps)
    (auto split: if_splits option.splits sum.splits prod.splits)

lemma decodeFields_append:
  "decodeFields lib d fs fieldMap pre vals unknown = (vals1, unknown1, None) \<Longrightarrow>
     decodeFields lib d fs fieldMap (pre @ rest) vals unknown
       = decodeFields lib d fs fieldMap rest vals1 unknown1"
proof (induction pre arbitrary: vals unknown)
  case Nil
  then show ?case by simp
next
  case (Cons kv pre)
  then show ?case
    by (auto split: option.splits if_splits prod.splits)
qed

text \<open>
  C2, as the code has it. Let the destination be a record and let the loop of decodeMap
  have gone through the entries \<open>pre\<close> of the document without error, leaving the field
  values \<open>vals1\<close>. If the next key resolves to field \<open>i\<close> and the conversion of its value
  fails with \<open>err\<close>, decodeMap stops and returns \<open>err\<close>, wrapped with the field's name.
  The field holds what it held before the attempt, unless the field is a record and the
  value a nested document: that record is decoded in place, and holds what the nested
  decoding left in it.
\<close>

theorem conversion_failure:
  assumes pre: "decodeFields lib d fs (buildFieldMap (TagName d) fs 0 Map.empty) pre
        (fieldValues (if ZeroFields d then zeroValue (TStruct fs) else rv)) [] = (vals1, unknown1, None)"
    and key: "lookupField (buildFieldMap (TagName d) fs 0 Map.empty) key = Some i"
      "i < length vals1"
    and fail: "setValue lib d (Type (fs ! i)) (vals1 ! i) val = (v, Some err)"
  shows "decodeMap lib d (pre @ (key, val) # post) (DPtr (TStruct fs) rv)
           = (DPtr (TStruct fs) (VStruct fs (vals1[i := v])),
              Some (ErrSettingField (Name (fst (fs ! i))) err))
       \<and> (\<not> (Kind (Type (fs ! i)) = KStruct \<and> isStringMap val) \<longrightarrow> vals1[i := v] = vals1)"
proof -
  have fi: "i < length fs" "CanSet (fs ! i)"
    using lookupField_Some [OF key(1)] by simp_all
  have "decodeFields lib d fs (buildFieldMap (TagName d) fs 0 Map.empty)
          (pre @ (key, val) # post)
          (fieldValues (if ZeroFields d then zeroValue (TStruct fs) else rv)) []
        = (vals1[i := v], unknown1, Some (ErrSettingField (Name (fst (fs ! i))) err))"
    unfolding decodeFields_append [OF pre]
    using fi key fail by simp
  then have "decodeMap lib d (pre @ (key, val) # post) (DPtr (TStruct fs) rv)
           = (DPtr (TStruct fs) (VStruct fs (vals1[i := v])),
              Some (ErrSettingField (Name (fst (fs ! i))) err))"
    by (simp add: decodeMap.simps structFields_def)
  moreover have "\<not> (Kind (Type (fs ! i)) = KStruct \<and> isStringMap val) \<longrightarrow> vals1[i := v] = vals1"
    using setValue_failure_target [OF fail] by auto
  ultimately show ?thesis by simp
qed

theorem conversion_failure_witness:
  "decodeMap failLib NewDecoder [(''a'', VString ''x''), (''n'', VString ''abc'')]
      (DPtr (TStruct metaFields) (VStruct metaFields [VString ''old'', VInt GoInt 5]))
    = (DPtr (TStruct metaFields) (VStruct metaFields [VString ''x'', VInt GoInt 0]),
       Some (ErrSettingField ''N'' (ErrTypeConversion (VString ''abc'') TString (TInt GoInt))))"
proof -
  let ?fm = "buildFieldMap (TagName NewDecoder) metaFields 0 Map.empty"
  let ?rv = "VStruct metaFields [VString ''old'', VInt GoInt 5]"
  have p: "decodeFields failLib NewDecoder metaFields ?fm [(''a'', VString ''x'')]
        (fieldValues (if ZeroFields NewDecoder then zeroValue (TStruct metaFields) else ?rv)) []
      = ([VString ''x'', VInt GoInt 0], [], None)"
    by (simp add: setValue.simps NewDecoder_def metaFields_def field_defs AssignableTo_def)
  have k: "lookupField ?fm ''n'' = Some 1" "1 < length [VString ''x'', VInt GoInt 0]"
    by (simp_all add: NewDecoder_def metaFields_def field_defs)
  have f: "setValue failLib NewDecoder (Type (metaFields ! 1)) ([VString ''x'', VInt GoInt 0] ! 1)
        (VString ''abc'') = (VInt GoInt 0, Some (ErrTypeConversion (VString ''abc'') TString (TInt GoInt)))"
    by (simp add: metaFields_def exported_def setValue_string_int NewDecoder_def ParseInt_def
        ParseUint_def isDigit_def)
  show ?thesis
    using conversion_failure [OF p k f, of "[]"]
    by (simp add: metaFields_def exported_def)
qed

text \<open>The claim for a nested record fails: the record \<^verbatim>\<open>Meta\<close> is decoded in place,
  and when its second entry fails to convert, its first field has been set.\<close>

theorem nested_record_counterexample:
  "setValue failLib NewDecoder (TStruct metaFields) (VStruct metaFields [VString [], VInt GoInt 0])
      metaDocument
    = (VStruct metaFields [VString ''x'', VInt GoInt 0],
       Some (ErrSettingField ''N'' (ErrTypeConversion (VString ''abc'') TString (TInt GoInt))))
   \<and> decodeMap failLib NewDecoder [(''meta'', metaDocument)]
        (DPtr (TStruct outerFields) (VStruct outerFields [VStruct metaFields [VString [], VInt GoInt 0]]))
    = (DPtr (TStruct outerFields) (VStruct outerFields [VStruct metaFields [VString ''x'', VInt GoInt 0]]),
       Some (ErrSettingField ''Meta''
         (ErrSettingField ''N'' (ErrTypeConversion (VString ''abc'') TString (TInt GoInt)))))"
proof -
  have sv: "setValue failLib NewDecoder (TStruct metaFields)
      (VStruct metaFields [VString [], VInt GoInt 0]) metaDocument
    = (VStruct metaFields [VString ''x'', VInt GoInt 0],
       Some (ErrSettingField ''N'' (ErrTypeConversion (VString ''abc'') TString (TInt GoInt))))"
    by (simp add: setValue.simps decodeMap.simps NewDecoder_def metaFields_def
        metaDocument_def field_defs
        AssignableTo_def weakConversions_def isStringMap_def toDocument_def mapEntries_def
        stringOf_def destValue_def stringConversions_def stringSwitch_def ParseInt_def
        ParseUint_def isDigit_def timeType_def ConvertibleTo_def isNumeric_def isInteger_def
        isByteOrRuneSlice_def)
  have z: "map (\<lambda>f. zeroValue (Type f)) metaFields = [VString [], VInt GoInt 0]"
    by (simp add: metaFields_def exported_def)
  have "decodeMap failLib NewDecoder [(''meta'', metaDocument)]
        (DPtr (TStruct outerFields) (VStruct outerFields [VStruct metaFields [VString [], VInt GoInt 0]]))
    = (DPtr (TStruct outerFields) (VStruct outerFields [VStruct metaFields [VString ''x'', VInt GoInt 0]]),
       Some (ErrSettingField ''Meta''
         (ErrSettingField ''N'' (ErrTypeConversion (VString ''abc'') TString (TInt GoInt)))))"
    using sv
    by (simp add: decodeMap.simps outerFields_def NewDecoder_def field_defs z)
  with sv show ?thesis by simp
qed

subsection \<open>The branches of setValue\<close>

lemma setValue_nil: "setValue lib d t tgt VNil = (zeroValue t, None)"
  by (subst setValue.simps) simp

lemma setValue_assignable:
  assumes "src \<noteq> VNil" "AssignableTo (typeOf src) t"
  shows "setValue lib d t tgt src = (src, None)"
  by (subst setValue.simps) (simp add: assms)

lemma setValue_weak:
  assumes "src \<noteq> VNil" "\<not> AssignableTo (typeOf src) t"
    "(if WeaklyTyped d then weakConversions lib t src else None) = Some w"
  shows "setValue lib d t tgt src = (w, None)"
  by (subst setValue.simps) (simp add: assms)

lemma setValue_slice:
  assumes "src \<noteq> VNil" "\<not> AssignableTo (typeOf src) t"
    "(if WeaklyTyped d then weakConversions lib t src else None) = None"
    "Kind t = KSlice \<and> Kind (typeOf src) = KSlice"
  shows "setValue lib d t tgt src =
     (case setSliceElems lib d (elemType t) (sliceElems src) of
        Inl err \<Rightarrow> (tgt, Some err)
      | Inr elems \<Rightarrow> (VSlice (elemType t) elems, None))"
  by (subst setValue.simps) (simp add: assms)

lemma setValue_map:
  assumes "src \<noteq> VNil" "\<not> AssignableTo (typeOf src) t"
    "(if WeaklyTyped d then weakConversions lib t src else None) = None"
    "\<not> (Kind t = KSlice \<and> Kind (typeOf src) = KSlice)"
    "Kind t = KMap \<and> Kind (typeOf src) = KMap"
  shows "setValue lib d t tgt src =
     (case setMapEntries lib d (keyType t) (elemType t) (mapEntries src) [] of
        Inl err \<Rightarrow> (tgt, Some err)
      | Inr newMap \<Rightarrow> (VMap (keyType t) (elemType t) newMap, None))"
  by (subst setValue.simps) (simp add: assms)

lemma setValue_struct:
  assumes "src \<noteq> VNil" "\<not> AssignableTo (typeOf src) t"
    "(if WeaklyTyped d then weakConversions lib t src else None) = None"
    "\<not> (Kind t = KSlice \<and> Kind (typeOf src) = KSlice)"
    "\<not> (Kind t = KMap \<and> Kind (typeOf src) = KMap)"
    "Kind t = KStruct \<and> isStringMap src"
  shows "setValue lib d t tgt src =
     (destValue (fst (decodeMap lib d (toDocument src) (DPtr t tgt))),
      snd (decodeMap lib d (toDocument src) (DPtr t tgt)))"
  by (subst setValue.simps) (simp add: assms case_prod_beta)

lemma setValue_ptr:
  assumes "src \<noteq> VNil" "\<not> AssignableTo (typeOf src) t"
    "(if WeaklyTyped d then weakConversions lib t src else None) = None"
    "\<not> (Kind t = KSlice \<and> Kind (typeOf src) = KSlice)"
    "\<not> (Kind t = KMap \<and> Kind (typeOf src) = KMap)"
    "\<not> (Kind t = KStruct \<and> isStringMap src)"
    "Kind t = KPtr" "\<not> (Kind (typeOf src) = KPtr \<and> IsNil src)"
  shows "setValue lib d t tgt src =
     (case setValue lib d (elemType t) (zeroValue (elemType t))
             (if Kind (typeOf src) = KPtr then Elem src else src) of
        (ptr, Some err) \<Rightarrow> (tgt, Some err)
      | (ptr, None) \<Rightarrow> (VPtr (elemType t) ptr, None))"
  by (subst setValue.simps) (simp add: assms)

lemma setValue_rest:
  assumes "src \<noteq> VNil" "\<not> AssignableTo (typeOf src) t"
    "(if WeaklyTyped d then weakConversions lib t src else None) = None"
    "\<not> (Kind t = KSlice \<and> Kind (typeOf src) = KSlice)"
    "\<not> (Kind t = KMap \<and> Kind (typeOf src) = KMap)"
    "\<not> (Kind t = KStruct \<and> isStringMap src)"
    "\<not> (Kind t = KPtr \<and> \<not> (Kind (typeOf src) = KPtr \<and> IsNil src))"
  shows "setValue lib d t tgt src =
     (if Kind t = KPtr then (zeroValue t, None)
      else if ConvertibleTo (typeOf src) t then (Convert lib src t, None)
      else (tgt, Some (ErrTypeConversion src (typeOf src) t)))"
proof (cases "Kind t = KPtr")
  case True
  with assms(7) have "Kind (typeOf src) = KPtr \<and> IsNil src" by simp
  with True show ?thesis by (subst setValue.simps) (simp add: assms(1-6))
next
  case False
  then show ?thesis by (subst setValue.simps) (simp add: assms(1-6))
qed


subsection \<open>Unknown keys\<close>

lemma ignoring_keeps_success:
  "setValue lib d t tgt src = (v, None) \<Longrightarrow>
     setValue lib (d\<lparr>IgnoreUnknownKeys := True\<rparr>) t tgt src = (v, None)"
  "setSliceElems lib d et xs = Inr vs \<Longrightarrow>
     setSliceElems lib (d\<lparr>IgnoreUnknownKeys := True\<rparr>) et xs = Inr vs"
  "setMapEntries lib d kt vt es acc = Inr res \<Longrightarrow>
     setMapEntries lib (d\<lparr>IgnoreUnknownKeys := True\<rparr>) kt vt es acc = Inr res"
  "decodeMap lib d m out = (out1, None) \<Longrightarrow>
     decodeMap lib (d\<lparr>IgnoreUnknownKeys := True\<rparr>) m out = (out1, None)"
  "decodeFields lib d fs fm m vals unk = (vals1, unk1, None) \<Longrightarrow>
     decodeFields lib (d\<lparr>IgnoreUnknownKeys := True\<rparr>) fs fm m vals unk = (vals1, unk1, None)"
proof (induction lib d t tgt src and lib d et xs and lib d kt vt es acc and lib d m out
    and lib d fs fm m vals unk
    arbitrary: v and vs and res and out1 and vals1 unk1
    rule: setValue_setSliceElems_setMapEntries_decodeMap_decodeFields.induct)
  case (1 lib d targetType target source)
  let ?d = "d\<lparr>IgnoreUnknownKeys := True\<rparr>"
  note prem = "1.prems"
  show ?case
  proof (cases "source = VNil")
    case True
    with prem show ?thesis by (simp add: setValue_nil)
  next
    case c1: False
    show ?thesis
    proof (cases "AssignableTo (typeOf source) targetType")
      case True
      with prem c1 show ?thesis by (simp add: setValue_assignable)
    next
      case c2: False
      show ?thesis
      proof (cases "if WeaklyTyped d then weakConversions lib targetType source else None")
        case (Some w)
        then have "(if WeaklyTyped ?d then weakConversions lib targetType source else None) = Some w"
          by simp
        from setValue_weak [OF c1 c2 this] setValue_weak [OF c1 c2 Some] prem
        show ?thesis by simp
      next
        case c3: None
        then have c3': "(if WeaklyTyped ?d then weakConversions lib targetType source else None) = None"
          by simp
        show ?thesis
        proof (cases "Kind targetType = KSlice \<and> Kind (typeOf source) = KSlice")
          case b1: True
          from prem obtain elems where
            e: "setSliceElems lib d (elemType targetType) (sliceElems source) = Inr elems"
            and v: "v = VSlice (elemType targetType) elems"
            unfolding setValue_slice [OF c1 c2 c3 b1] by (auto split: sum.splits)
          from "1.IH"(1) [OF c1 c2 c3 b1 e] v
          show ?thesis unfolding setValue_slice [OF c1 c2 c3' b1] by simp
        next
          case b1: False
          show ?thesis
          proof (cases "Kind targetType = KMap \<and> Kind (typeOf source) = KMap")
            case b2: True
            from prem obtain newMap where
              e: "setMapEntries lib d (keyType targetType) (elemType targetType)
                    (mapEntries source) [] = Inr newMap"
              and v: "v = VMap (keyType targetType) (elemType targetType) newMap"
              unfolding setValue_map [OF c1 c2 c3 b1 b2] by (auto split: sum.splits)
            from "1.IH"(2) [OF c1 c2 c3 b1 b2 e] v
            show ?thesis unfolding setValue_map [OF c1 c2 c3' b1 b2] by simp
          next
            case b2: False
            show ?thesis
            proof (cases "Kind targetType = KStruct \<and> isStringMap source")
              case b3: True
              from prem obtain out2 where
                e: "decodeMap lib d (toDocument source) (DPtr targetType target) = (out2, None)"
                and v: "v = destValue out2"
                unfolding setValue_struct [OF c1 c2 c3 b1 b2 b3]
                by (cases "decodeMap lib d (toDocument source) (DPtr targetType target)") auto
              from "1.IH"(3) [OF c1 c2 c3 b1 b2 b3 e] v
              show ?thesis unfolding setValue_struct [OF c1 c2 c3' b1 b2 b3] by simp
            next
              case b3: False
              show ?thesis
              proof (cases "Kind targetType = KPtr
                  \<and> \<not> (Kind (typeOf source) = KPtr \<and> IsNil source)")
                case b4: True
                then have k: "Kind targetType = KPtr"
                  and n: "\<not> (Kind (typeOf source) = KPtr \<and> IsNil source)" by simp_all
                let ?src = "if Kind (typeOf source) = KPtr then Elem source else source"
                from prem obtain ptr where
                  e: "setValue lib d (elemType targetType) (zeroValue (elemType targetType)) ?src
                        = (ptr, None)"
                  and v: "v = VPtr (elemType targetType) ptr"
                  unfolding setValue_ptr [OF c1 c2 c3 b1 b2 b3 k n]
                  by (auto split: prod.splits option.splits)
                from "1.IH"(4) [OF c1 c2 c3 b1 b2 b3 k n e] v
                show ?thesis unfolding setValue_ptr [OF c1 c2 c3' b1 b2 b3 k n] by simp
              next
                case b4: False
                from prem show ?thesis
                  unfolding setValue_rest [OF c1 c2 c3 b1 b2 b3 b4]
                    setValue_rest [OF c1 c2 c3' b1 b2 b3 b4] .
              qed
            qed
          qed
        qed
      qed
    qed
  qed
next
  case (2 lib d elem)
  then show ?case by simp
next
  case (3 lib d elem x xs)
  from "3.prems" obtain w ws where
    a: "setValue lib d elem (zeroValue elem) x = (w, None)"
    and b: "setSliceElems lib d elem xs = Inr ws" and c: "vs = w # ws"
    by (auto split: prod.splits option.splits sum.splits)
  from "3.IH"(1) [OF a] "3.IH"(2) [OF a [symmetric] refl b] c
  show ?case by simp
next
  case (4 lib d targetKeyType targetValueType newMap)
  then show ?case by simp
next
  case (5 lib d targetKeyType targetValueType e es newMap)
  from "5.prems" obtain newKey newValue where
    a: "setValue lib d targetKeyType (zeroValue targetKeyType) (fst e) = (newKey, None)"
    and b: "setValue lib d targetValueType (zeroValue targetValueType) (snd e) = (newValue, None)"
    and c: "setMapEntries lib d targetKeyType targetValueType es
              (SetMapIndex newKey newValue newMap) = Inr res"
    by (auto split: prod.splits option.splits sum.splits)
  from "5.IH"(1) [OF a] "5.IH"(2) [OF a [symmetric] refl b]
    "5.IH"(3) [OF a [symmetric] refl b [symmetric] refl c]
  show ?case by simp
next
  case (6 lib d m dst)
  show ?case
  proof (cases dst)
    case (DPtr rt rv)
    show ?thesis
    proof (cases "Kind rt \<noteq> KStruct")
      case True
      show ?thesis
      proof (cases "length m = 1")
        case one: True
        from "6.prems" DPtr True one obtain w where
          a: "setValue lib d rt rv (snd (hd m)) = (w, None)" and b: "out1 = DPtr rt w"
          by (auto simp: decodeMap.simps split: prod.splits)
        from "6.IH"(1) [OF DPtr True one a] DPtr True one b
        show ?thesis by (simp add: decodeMap.simps)
      next
        case False
        with "6.prems" DPtr True show ?thesis by (simp add: decodeMap.simps)
      qed
    next
      case False
      from "6.prems" DPtr False obtain vals unknownKeys where
        a: "decodeFields lib d (structFields rt)
              (buildFieldMap (TagName d) (structFields rt) 0 Map.empty) m
              (fieldValues (if ZeroFields d then zeroValue rt else rv)) []
            = (vals, unknownKeys, None)"
        and b: "out1 = DPtr rt (VStruct (structFields rt) vals)"
        by (auto simp: decodeMap.simps split: prod.splits option.splits if_splits)
      from "6.IH"(2) [OF DPtr False a] DPtr False b
      show ?thesis by (simp add: decodeMap.simps)
    qed
  qed (use "6.prems" in \<open>simp_all add: decodeMap.simps\<close>)
next
  case (7 lib d fs fieldMap vals unknownKeys)
  then show ?case by simp
next
  case (8 lib d fs fieldMap kv rest vals unknownKeys)
  show ?case
  proof (cases "lookupField fieldMap (fst kv)")
    case None
    with "8.prems" "8.IH"(1) [OF None] show ?thesis by simp
  next
    case (Some fieldIndex)
    show ?thesis
    proof (cases "fieldIndex < length fs \<and> fieldIndex < length vals")
      case False
      with "8.prems" Some show ?thesis by simp
    next
      case inr: True
      then have nr: "\<not> \<not> (fieldIndex < length fs \<and> fieldIndex < length vals)" by simp
      show ?thesis
      proof (cases "CanSet (fs ! fieldIndex)")
        case False
        with "8.prems" Some inr "8.IH"(2) [OF Some nr] show ?thesis by simp
      next
        case True
        then have cs: "\<not> \<not> CanSet (fs ! fieldIndex)" by simp
        from "8.prems" Some inr True obtain w where
          a: "setValue lib d (Type (fs ! fieldIndex)) (vals ! fieldIndex) (snd kv) = (w, None)"
          and b: "decodeFields lib d fs fieldMap rest (vals[fieldIndex := w]) unknownKeys
                    = (vals1, unk1, None)"
          by (auto split: prod.splits option.splits)
        from "8.IH"(3) [OF Some nr cs a] "8.IH"(4) [OF Some nr cs a [symmetric] refl b]
          Some inr True
        show ?thesis by simp
      qed
    qed
  qed
qed

lemma decodeFields_unknown:
  "decodeFields lib d fs fieldMap m vals unknown = (vals1, unknown1, None) \<Longrightarrow>
     unknown1 = unknown @ filter (\<lambda>k. lookupField fieldMap k = None) (map fst m)"
proof (induction m arbitrary: vals unknown)
  case Nil
  then show ?case by simp
next
  case (Cons kv m)
  show ?case
  proof (cases "lookupField fieldMap (fst kv)")
    case None
    with Cons.prems have "decodeFields lib d fs fieldMap m vals (unknown @ [fst kv])
        = (vals1, unknown1, None)" by simp
    from Cons.IH [OF this] None show ?thesis by simp
  next
    case (Some i)
    with Cons.prems obtain vals2 where
      "decodeFields lib d fs fieldMap m vals2 unknown = (vals1, unknown1, None)"
      by (auto split: if_splits prod.splits option.splits)
    from Cons.IH [OF this] Some show ?thesis by simp
  qed
qed

text \<open>
  C3, as the code has it. Let the destination be a record, let the document contain a
  key that resolves to no field, and let every entry whose key does resolve convert
  without error under the decoder that does not ignore unknown keys. Then decoding
  without ignoring unknown keys fails with the unknown-field error naming the first
  unresolved key the loop met; decoding with unknown keys ignored succeeds; and both
  leave the same field values in the destination.
\<close>

theorem unknown_keys:
  assumes conv: "decodeFields lib (d\<lparr>IgnoreUnknownKeys := False\<rparr>) fs
        (buildFieldMap (TagName d) fs 0 Map.empty) m
        (fieldValues (if ZeroFields d then zeroValue (TStruct fs) else rv)) []
      = (vals, unknown, None)"
    and key: "k \<in> set (map fst m)"
      "lookupField (buildFieldMap (TagName d) fs 0 Map.empty) k = None"
  shows "decodeMap lib (d\<lparr>IgnoreUnknownKeys := False\<rparr>) m (DPtr (TStruct fs) rv)
           = (DPtr (TStruct fs) (VStruct fs vals), Some (ErrUnknownField (hd unknown)))
       \<and> hd unknown \<in> set (map fst m)
       \<and> lookupField (buildFieldMap (TagName d) fs 0 Map.empty) (hd unknown) = None
       \<and> decodeMap lib (d\<lparr>IgnoreUnknownKeys := True\<rparr>) m (DPtr (TStruct fs) rv)
           = (DPtr (TStruct fs) (VStruct fs vals), None)"
proof -
  let ?fm = "buildFieldMap (TagName d) fs 0 Map.empty"
  have u: "unknown = filter (\<lambda>k. lookupField ?fm k = None) (map fst m)"
    using decodeFields_unknown [OF conv] by simp
  have "k \<in> set unknown" using key by (simp add: u)
  then have ne: "unknown \<noteq> []" by auto
  then have "hd unknown \<in> set unknown" by simp
  then have h: "hd unknown \<in> set (map fst m)" "lookupField ?fm (hd unknown) = None"
    unfolding u by auto
  have f: "decodeMap lib (d\<lparr>IgnoreUnknownKeys := False\<rparr>) m (DPtr (TStruct fs) rv)
           = (DPtr (TStruct fs) (VStruct fs vals), Some (ErrUnknownField (hd unknown)))"
    using conv ne by (simp add: decodeMap.simps structFields_def)
  have "decodeFields lib (d\<lparr>IgnoreUnknownKeys := False, IgnoreUnknownKeys := True\<rparr>) fs ?fm m
        (fieldValues (if ZeroFields d then zeroValue (TStruct fs) else rv)) []
      = (vals, unknown, None)"
    by (rule ignoring_keeps_success(5) [OF conv])
  then have t: "decodeMap lib (d\<lparr>IgnoreUnknownKeys := True\<rparr>) m (DPtr (TStruct fs) rv)
           = (DPtr (TStruct fs) (VStruct fs vals), None)"
    by (simp add: decodeMap.simps structFields_def)
  from f h t show ?thesis by simp
qed

theorem unknown_keys_witness:
  "decodeMap failLib (NewDecoder\<lparr>IgnoreUnknownKeys := False\<rparr>)
      [(''id'', VInt GoInt 1), (''extra'', VInt GoInt 2)]
      (DPtr (TStruct idFields) (VStruct idFields [VInt GoInt 0]))
    = (DPtr (TStruct idFields) (VStruct idFields [VInt GoInt 1]), Some (ErrUnknownField ''extra''))
   \<and> decodeMap failLib (NewDecoder\<lparr>IgnoreUnknownKeys := True\<rparr>)
      [(''id'', VInt GoInt 1), (''extra'', VInt GoInt 2)]
      (DPtr (TStruct idFields) (VStruct idFields [VInt GoInt 0]))
    = (DPtr (TStruct idFields) (VStruct idFields [VInt GoInt 1]), None)"
proof -
  let ?m = "[(''id'', VInt GoInt 1), (''extra'', VInt GoInt 2)]"
  let ?rv = "VStruct idFields [VInt GoInt 0]"
  have c: "decodeFields failLib (NewDecoder\<lparr>IgnoreUnknownKeys := False\<rparr>) idFields
        (buildFieldMap (TagName NewDecoder) idFields 0 Map.empty) ?m
        (fieldValues (if ZeroFields NewDecoder then zeroValue (TStruct idFields) else ?rv)) []
      = ([VInt GoInt 1], [''extra''], None)"
    by (simp add: setValue.simps NewDecoder_def idFields_def field_defs AssignableTo_def)
  have k: "''extra'' \<in> set (map fst ?m)"
    "lookupField (buildFieldMap (TagName NewDecoder) idFields 0 Map.empty) ''extra'' = None"
    by (simp_all add: NewDecoder_def idFields_def field_defs)
  show ?thesis
    using unknown_keys [OF c k] by simp
qed

text \<open>The claim for every document with an unknown key fails where another entry does
  not convert: decoding fails with the conversion error under either setting.\<close>

theorem unknown_keys_counterexample:
  "decodeMap failLib (NewDecoder\<lparr>IgnoreUnknownKeys := True\<rparr>)
      [(''id'', VString ''abc''), (''extra'', VInt GoInt 2)]
      (DPtr (TStruct idFields) (VStruct idFields [VInt GoInt 0]))
    = (DPtr (TStruct idFields) (VStruct idFields [VInt GoInt 0]),
       Some (ErrSettingField ''ID'' (ErrTypeConversion (VString ''abc'') TString (TInt GoInt))))
   \<and> decodeMap failLib (NewDecoder\<lparr>IgnoreUnknownKeys := False\<rparr>)
      [(''id'', VString ''abc''), (''extra'', VInt GoInt 2)]
      (DPtr (TStruct idFields) (VStruct idFields [VInt GoInt 0]))
    = (DPtr (TStruct idFields) (VStruct idFields [VInt GoInt 0]),
       Some (ErrSettingField ''ID'' (ErrTypeConversion (VString ''abc'') TString (TInt GoInt))))"
  by (simp add: setValue.simps decodeMap.simps NewDecoder_def idFields_def field_defs
      AssignableTo_def weakConversions_def stringConversions_def stringSwitch_def ParseInt_def
      ParseUint_def isDigit_def timeType_def ConvertibleTo_def isNumeric_def isInteger_def
      isByteOrRuneSlice_def isStringMap_def)

end
